theory Spec2Isabelle
  imports Complex_Main "HOL-Library.Word"
begin

section \<open>Common data\<close>

text \<open>
  Floating-point arrays of the program are lists of reals: the finite values of the
  arrays, with exact arithmetic.  Where the program can leave the finite values (a
  division by zero, a NaN entry) the model says so in its result type.  The hit counts
  are numpy \<open>int32\<close> values, which wrap around.
\<close>

text \<open>
  The exceptions of the program.  \<open>Undefined\<close> is not an exception: it marks an input on
  which the program computes a non-finite quotient and converts it to an integer, whose
  value is platform-defined.
\<close>

datatype error = AssertionError | ValueError | IndexError | Undefined

datatype projection = healpix | flat

type_synonym int32 = "32 word"

text \<open>Element-wise numpy arithmetic on arrays of one shape.\<close>

definition same_shape :: "'a list list \<Rightarrow> bool" where
  "same_shape xss = (case xss of [] \<Rightarrow> True | xs # r \<Rightarrow> list_all (\<lambda>ys. length ys = length xs) r)"

text \<open>
  Indexing an array with an integer: negative indices count from the end, anything out
  of range raises IndexError.
\<close>

definition getitem :: "'a list \<Rightarrow> int \<Rightarrow> error + 'a" where
  "getitem xs i =
     (if 0 \<le> i \<and> i < int (length xs) then Inr (xs ! nat i)
      else if i < 0 \<and> - int (length xs) \<le> i then Inr (xs ! nat (int (length xs) + i))
      else Inl IndexError)"

text \<open>Indexing with an index array, \<open>a[idx]\<close>: the first failing entry raises.\<close>

fun take_items :: "'a list \<Rightarrow> int list \<Rightarrow> error + 'a list" where
  "take_items xs [] = Inr []"
| "take_items xs (i # r) =
     (case getitem xs i of
        Inl e \<Rightarrow> Inl e
      | Inr v \<Rightarrow> (case take_items xs r of Inl e \<Rightarrow> Inl e | Inr vs \<Rightarrow> Inr (v # vs)))"

section \<open>The sky map accumulator (class OutputSkyMap of s4cmb/tod.py)\<close>

text \<open>
  The object's attributes.  \<open>obspix\<close> is \<open>None\<close> when the constructor received none
  (flat projection).  \<open>idet\<close> is the attribute that \<open>get_QU\<close> stores on the object; it
  does not exist before the first call.
\<close>

record OutputSkyMap =
  projection :: projection
  obspix :: "int list option"
  npixsky :: nat
  d :: "real list"
  dc :: "real list"
  ds :: "real list"
  w :: "real list"
  cc :: "real list"
  cs :: "real list"
  ss :: "real list"
  nhit :: "int32 list"
  idet :: "real list option"

text \<open>
  \<open>__init__\<close> followed by \<open>initialise_sky_maps\<close>.  The healpix branch asserts that
  \<open>obspix\<close> was given and sets \<open>npixsky = len(obspix)\<close>; the flat branch asserts that
  \<open>npixsky\<close> was given.  (\<open>nside\<close> and \<open>pixel_size\<close> are only stored; the two asserts
  on them are part of the argument types here.)
\<close>

definition initialise_sky_maps :: "projection \<Rightarrow> int list option \<Rightarrow> nat \<Rightarrow> OutputSkyMap" where
  "initialise_sky_maps pr ob n =
     \<lparr> projection = pr, obspix = ob, npixsky = n,
       d = replicate n 0, dc = replicate n 0, ds = replicate n 0,
       w = replicate n 0, cc = replicate n 0, cs = replicate n 0, ss = replicate n 0,
       nhit = replicate n 0, idet = None \<rparr>"

definition new_OutputSkyMap :: "projection \<Rightarrow> int list option \<Rightarrow> nat option \<Rightarrow> error + OutputSkyMap" where
  "new_OutputSkyMap pr ob np =
     (case pr of
        healpix \<Rightarrow>
          (case ob of None \<Rightarrow> Inl AssertionError
           | Some xs \<Rightarrow> Inr (initialise_sky_maps pr ob (length xs)))
      | flat \<Rightarrow>
          (case np of None \<Rightarrow> Inl AssertionError
           | Some n \<Rightarrow> Inr (initialise_sky_maps pr ob n)))"

text \<open>The data model's invariant: all eight arrays have \<open>npixsky\<close> entries.\<close>

definition wf_maps :: "OutputSkyMap \<Rightarrow> bool" where
  "wf_maps m =
     (length (d m) = npixsky m \<and> length (dc m) = npixsky m \<and> length (ds m) = npixsky m \<and>
      length (w m) = npixsky m \<and> length (cc m) = npixsky m \<and> length (cs m) = npixsky m \<and>
      length (ss m) = npixsky m \<and> length (nhit m) = npixsky m)"

subsection \<open>The solver\<close>

text \<open>
  \<open>get_I\<close>: \<open>hit = self.w > 0; I = np.zeros_like(self.d); I[hit] = self.d[hit]/self.w[hit]\<close>.
  A boolean index of another length than the indexed array raises IndexError.
\<close>

definition get_I :: "OutputSkyMap \<Rightarrow> error + real list" where
  "get_I m =
     (if length (w m) \<noteq> length (d m) then Inl IndexError
      else
        let hit = map (\<lambda>x. x > 0) (w m)
        in Inr (map (\<lambda>p. if hit ! p then d m ! p / w m ! p else 0) [0 ..< length (d m)]))"

text \<open>\<open>np.finfo(np.float32).eps\<close>, the single-precision machine epsilon.\<close>

definition thresh :: real where
  "thresh = 1 / 2 ^ 23"

text \<open>
  \<open>get_QU\<close> on finite values.  \<open>idet\<close> is first \<open>1 / testcc\<close> where \<open>testcc != 0\<close> and zero
  elsewhere, then zero where \<open>izero\<close> holds.  On finite values the comparison
  \<open>np.abs(testcc) < thresh\<close> cannot raise FloatingPointError, so the \<open>except\<close> branch is
  not taken (the entries that are NaN are the subject of \<open>get_QU_fp\<close> below).  The result
  carries the object as the call leaves it: \<open>self.idet = idet\<close> is the one assignment.
  Arrays of different lengths make the element-wise operations raise ValueError.
\<close>

definition get_QU :: "OutputSkyMap \<Rightarrow> error + ((real list \<times> real list) \<times> OutputSkyMap)" where
  "get_QU m =
     (if \<not> same_shape [cc m, ss m, cs m, dc m, ds m] then Inl ValueError
      else
        let testcc = map2 (-) (map2 times (cc m) (ss m)) (map2 times (cs m) (cs m));
            inonzero = map (\<lambda>t. t \<noteq> 0) testcc;
            idet1 = map2 (\<lambda>nz t. if nz then 1 / t else 0) inonzero testcc;
            izero = map (\<lambda>t. \<bar>t\<bar> < thresh) testcc;
            idet2 = map2 (\<lambda>z i. if z then 0 else i) izero idet1;
            Q = map2 times idet2 (map2 (-) (map2 times (ss m) (dc m)) (map2 times (cs m) (ds m)));
            U = map2 times idet2
                  (map2 (+) (map2 times (map uminus (cs m)) (dc m)) (map2 times (cc m) (ds m)))
        in Inr ((Q, U), m\<lparr>idet := Some idet2\<rparr>))"

text \<open>\<open>get_IQU\<close>: \<open>I = self.get_I(); Q, U = self.get_QU(); return I, Q, U\<close>.\<close>

definition get_IQU :: "OutputSkyMap \<Rightarrow> error + ((real list \<times> real list \<times> real list) \<times> OutputSkyMap)" where
  "get_IQU m =
     (case get_I m of
        Inl e \<Rightarrow> Inl e
      | Inr Iv \<Rightarrow>
          (case get_QU m of
             Inl e \<Rightarrow> Inl e
           | Inr ((Qv, Uv), m') \<Rightarrow> Inr ((Iv, Qv, Uv), m')))"

subsection \<open>The solver on arrays that hold NaN\<close>

text \<open>
  A float64 entry is a finite value or NaN.  NaN propagates through the arithmetic,
  \<open>x != 0.\<close> is true of NaN and \<open>x < y\<close> is false of it.  The operations of \<open>get_QU\<close>
  (products, differences and the reciprocal of a nonzero value) keep finite values
  finite, rounding and overflow apart.
\<close>

datatype float64 = Fin real | NaN

fun fmul :: "float64 \<Rightarrow> float64 \<Rightarrow> float64" where
  "fmul (Fin a) (Fin b) = Fin (a * b)"
| "fmul _ _ = NaN"

fun fadd :: "float64 \<Rightarrow> float64 \<Rightarrow> float64" where
  "fadd (Fin a) (Fin b) = Fin (a + b)"
| "fadd _ _ = NaN"

fun fsub :: "float64 \<Rightarrow> float64 \<Rightarrow> float64" where
  "fsub (Fin a) (Fin b) = Fin (a - b)"
| "fsub _ _ = NaN"

fun fneg :: "float64 \<Rightarrow> float64" where
  "fneg (Fin a) = Fin (- a)"
| "fneg NaN = NaN"

text \<open>\<open>1. / t\<close>, used only where \<open>t != 0.\<close> holds.\<close>

fun frecip :: "float64 \<Rightarrow> float64" where
  "frecip (Fin a) = Fin (1 / a)"
| "frecip NaN = NaN"

fun fne0 :: "float64 \<Rightarrow> bool" where
  "fne0 (Fin a) = (a \<noteq> 0)"
| "fne0 NaN = True"

fun fabs_lt :: "float64 \<Rightarrow> real \<Rightarrow> bool" where
  "fabs_lt (Fin a) t = (\<bar>a\<bar> < t)"
| "fabs_lt NaN t = False"

fun isnan :: "float64 \<Rightarrow> bool" where
  "isnan NaN = True"
| "isnan (Fin a) = False"

text \<open>
  \<open>get_QU\<close> on such arrays; the arguments are the attributes \<open>cc\<close>, \<open>cs\<close>, \<open>ss\<close>, \<open>dc\<close>,
  \<open>ds\<close> and the result is \<open>(idet, Q, U)\<close>.  Whether the comparison
  \<open>np.abs(testcc) < thresh\<close> raises FloatingPointError on a NaN entry is numpy's error
  state (\<open>np.seterr\<close>), which the function does not set: \<open>fp_raise\<close> is that state.  By
  default it is off, the comparison is false on NaN and the \<open>except\<close> branch is not
  taken.  In the \<open>except\<close> branch \<open>izero\<close> is \<open>isnan\<close> where that holds and the comparison
  elsewhere.
\<close>

definition get_QU_fp ::
  "bool \<Rightarrow> float64 list \<Rightarrow> float64 list \<Rightarrow> float64 list \<Rightarrow> float64 list \<Rightarrow> float64 list
     \<Rightarrow> error + (float64 list \<times> float64 list \<times> float64 list)" where
  "get_QU_fp fp_raise ccv csv ssv dcv dsv =
     (if \<not> same_shape [ccv, ssv, csv, dcv, dsv] then Inl ValueError
      else
        let testcc = map2 fsub (map2 fmul ccv ssv) (map2 fmul csv csv);
            inonzero = map fne0 testcc;
            idet1 = map2 (\<lambda>nz t. if nz then frecip t else Fin 0) inonzero testcc;
            izero = (if fp_raise \<and> list_ex isnan testcc
                     then map (\<lambda>t. isnan t \<or> fabs_lt t thresh) testcc
                     else map (\<lambda>t. fabs_lt t thresh) testcc);
            idet2 = map2 (\<lambda>z i. if z then Fin 0 else i) izero idet1;
            Q = map2 fmul idet2 (map2 fsub (map2 fmul ssv dcv) (map2 fmul csv dsv));
            U = map2 fmul idet2
                  (map2 fadd (map2 fmul (map fneg csv) dcv) (map2 fmul ccv dsv))
        in Inr (idet2, Q, U))"

subsection \<open>The combiner\<close>

text \<open>
  \<open>np.all(self.obspix == other.obspix)\<close>.  Two arrays of one length are compared entry by
  entry; an array of length one is broadcast against the other; two arrays of other
  lengths compare as the scalar False, as does an array with None.
\<close>

fun np_all_eq :: "int list option \<Rightarrow> int list option \<Rightarrow> bool" where
  "np_all_eq None None = True"
| "np_all_eq (Some xs) (Some ys) =
     (if length xs = length ys then list_all2 (=) xs ys
      else if length xs = 1 then list_all (\<lambda>y. hd xs = y) ys
      else if length ys = 1 then list_all (\<lambda>x. x = hd ys) xs
      else False)"
| "np_all_eq _ _ = False"

text \<open>
  The in-place \<open>a += b\<close> on arrays: entry by entry for one length, \<open>b\<close> of length one is
  broadcast, any other pair of lengths raises ValueError.
\<close>

definition iadd :: "('a::plus) list \<Rightarrow> 'a list \<Rightarrow> error + 'a list" where
  "iadd a b =
     (if length b = length a then Inr (map2 (+) a b)
      else if length b = 1 then Inr (map (\<lambda>x. x + hd b) a)
      else Inl ValueError)"

text \<open>
  The names that \<open>to_coadd\<close> may hold are the names of the eight vectors; the default
  names them all.
\<close>

datatype vector = V_d | V_dc | V_ds | V_w | V_cc | V_cs | V_ss | V_nhit

definition to_coadd_default :: "vector list" where
  "to_coadd_default = [V_d, V_dc, V_ds, V_w, V_cc, V_cs, V_ss, V_nhit]"

text \<open>One turn of the loop: \<open>a = getattr(self, k); b = getattr(other, k); a += b\<close>.\<close>

fun coadd_vector :: "OutputSkyMap \<Rightarrow> vector \<Rightarrow> OutputSkyMap \<Rightarrow> error + OutputSkyMap" where
  "coadd_vector other V_d m = (case iadd (d m) (d other) of Inl e \<Rightarrow> Inl e | Inr a \<Rightarrow> Inr (m\<lparr>d := a\<rparr>))"
| "coadd_vector other V_dc m = (case iadd (dc m) (dc other) of Inl e \<Rightarrow> Inl e | Inr a \<Rightarrow> Inr (m\<lparr>dc := a\<rparr>))"
| "coadd_vector other V_ds m = (case iadd (ds m) (ds other) of Inl e \<Rightarrow> Inl e | Inr a \<Rightarrow> Inr (m\<lparr>ds := a\<rparr>))"
| "coadd_vector other V_w m = (case iadd (w m) (w other) of Inl e \<Rightarrow> Inl e | Inr a \<Rightarrow> Inr (m\<lparr>w := a\<rparr>))"
| "coadd_vector other V_cc m = (case iadd (cc m) (cc other) of Inl e \<Rightarrow> Inl e | Inr a \<Rightarrow> Inr (m\<lparr>cc := a\<rparr>))"
| "coadd_vector other V_cs m = (case iadd (cs m) (cs other) of Inl e \<Rightarrow> Inl e | Inr a \<Rightarrow> Inr (m\<lparr>cs := a\<rparr>))"
| "coadd_vector other V_ss m = (case iadd (ss m) (ss other) of Inl e \<Rightarrow> Inl e | Inr a \<Rightarrow> Inr (m\<lparr>ss := a\<rparr>))"
| "coadd_vector other V_nhit m = (case iadd (nhit m) (nhit other) of Inl e \<Rightarrow> Inl e | Inr a \<Rightarrow> Inr (m\<lparr>nhit := a\<rparr>))"

fun coadd_loop :: "OutputSkyMap \<Rightarrow> vector list \<Rightarrow> OutputSkyMap \<Rightarrow> error + OutputSkyMap" where
  "coadd_loop other [] m = Inr m"
| "coadd_loop other (k # ks) m =
     (case coadd_vector other k m of Inl e \<Rightarrow> Inl e | Inr m' \<Rightarrow> coadd_loop other ks m')"

text \<open>
  \<open>coadd\<close>: the assertion on the observed pixels, then the loop over the names.  \<open>other\<close>
  is another object than \<open>self\<close>.
\<close>

definition coadd :: "OutputSkyMap \<Rightarrow> OutputSkyMap \<Rightarrow> vector list \<Rightarrow> error + OutputSkyMap" where
  "coadd m other to_coadd =
     (if \<not> np_all_eq (obspix m) (obspix other) then Inl AssertionError
      else coadd_loop other to_coadd m)"

section \<open>The pointing model corrector (class pointing of time_ordered_data/tod.py)\<close>

definition sec2deg :: real where
  "sec2deg = 360 / 86400"

definition d2r :: real where
  "d2r = pi / 180"

text \<open>\<open>str.split()\<close> without argument: the words between runs of white space.\<close>

definition is_space :: "char \<Rightarrow> bool" where
  "is_space c = (c \<in> set [CHR '' '', CHR 0x09, CHR 0x0A, CHR 0x0B, CHR 0x0C, CHR 0x0D])"

fun split_words :: "string \<Rightarrow> string \<Rightarrow> string list" where
  "split_words cur [] = (if cur = [] then [] else [cur])"
| "split_words cur (c # r) =
     (if is_space c then (if cur = [] then split_words [] r else cur # split_words [] r)
      else split_words (cur @ [c]) r)"

definition str_split :: "string \<Rightarrow> string list" where
  "str_split s = split_words [] s"

text \<open>\<open>list.index(x)\<close>, called only on a member of the list.\<close>

fun list_index :: "'a list \<Rightarrow> 'a \<Rightarrow> nat" where
  "list_index [] x = 0"
| "list_index (y # ys) x = (if y = x then 0 else Suc (list_index ys x))"

text \<open>
  The attributes that \<open>__init__\<close> stores; \<open>lat\<close> is in radians (\<open>self.lat = lat * d2r\<close>).
\<close>

record pointing =
  az_enc :: "real list"
  el_enc :: "real list"
  time :: "real list"
  value_params :: "real list"
  allowed_params :: string
  lat :: real

definition known_params :: "string list" where
  "known_params =
     [''an'', ''aw'', ''an2'', ''aw2'', ''an4'', ''aw4'', ''npae'', ''ca'', ''ia'', ''ie'',
      ''tf'', ''tfs'', ''ref'', ''dt'', ''elt'', ''ta1'', ''te1'', ''sa'', ''se'', ''sa2'',
      ''se2'', ''sta'', ''ste'', ''sta2'', ''ste2'']"

text \<open>
  The dictionary \<open>params\<close> after the loop that fills it and after
  \<open>params['dt'] *= sec2deg\<close>: a known name that \<open>allowed_params\<close> holds has the value at
  the name's first position there, every other known name has 0.0.
\<close>

definition params :: "pointing \<Rightarrow> string \<Rightarrow> real" where
  "params p name =
     (let names = str_split (allowed_params p);
          v = (if name \<in> set known_params \<and> name \<in> set names
               then value_params p ! list_index names name else 0)
      in if name = ''dt'' then v * sec2deg else v)"

text \<open>\<open>np.min\<close> of an array; an empty array raises ValueError.\<close>

fun np_min :: "real list \<Rightarrow> error + real" where
  "np_min [] = Inl ValueError"
| "np_min (x # xs) = Inr (fold min xs x)"

text \<open>
  The time-linear term of the elevation offset, \<open>params['elt'] * (self.time - np.min(self.time))\<close>.
\<close>

definition elt_contribution :: "pointing \<Rightarrow> error + real list" where
  "elt_contribution p =
     (case np_min (time p) of
        Inl e \<Rightarrow> Inl e
      | Inr t0 \<Rightarrow> Inr (map (\<lambda>t. params p ''elt'' * (t - t0)) (time p)))"

text \<open>
  The azimuth offset of one sample before the conversion to radians, and the elevation
  offset without the term \<open>params['ref'] / tan(el)\<close> and with the time-linear term given.
\<close>

definition azd_sample :: "pointing \<Rightarrow> real \<Rightarrow> real \<Rightarrow> real" where
  "azd_sample p az el =
     - params p ''an'' * sin az * sin el
     - params p ''aw'' * cos az * sin el
     - (- params p ''an2'' * sin (2 * az) * sin el)
     - params p ''aw2'' * cos (2 * az) * sin el
     - (- params p ''an4'' * sin (4 * az) * sin el)
     - params p ''aw4'' * cos (4 * az) * sin el
     + params p ''npae'' * sin el
     - params p ''ca''
     + params p ''ia'' * cos el
     + params p ''dt'' * (- sin (lat p) + cos az * cos (lat p) * tan el)"

definition eld_sample :: "pointing \<Rightarrow> real \<Rightarrow> real \<Rightarrow> real \<Rightarrow> real" where
  "eld_sample p az el eltc =
     params p ''an'' * cos az
     - params p ''aw'' * sin az
     - params p ''an2'' * cos (2 * az)
     - params p ''aw2'' * sin (2 * az)
     - params p ''an4'' * cos (4 * az)
     - params p ''aw4'' * sin (4 * az)
     - params p ''ie''
     + params p ''tf'' * cos el
     + params p ''tfs'' * sin el
     - params p ''ref'' / tan el
     + (- params p ''dt'' * cos (lat p) * sin az)
     + eltc"

text \<open>
  The corrected angles of one sample; \<open>None\<close> is a value that is not finite.  The program
  divides by \<open>tan(el)\<close> and by \<open>cos(el)\<close> whatever the parameters are: at \<open>sin el = 0\<close> the
  quotient \<open>params['ref'] / tan(el)\<close> is \<open>0/0\<close> (NaN) or infinite, and so is the corrected
  elevation.  Where \<open>cos el = 0\<close> the tangent has a pole, and neither result is defined.
\<close>

definition az_sample :: "pointing \<Rightarrow> real \<Rightarrow> real \<Rightarrow> real option" where
  "az_sample p az el =
     (if cos el = 0 then None
      else Some (az - azd_sample p az el * (pi / (180 * 60)) / cos el))"

definition el_sample :: "pointing \<Rightarrow> real \<Rightarrow> real \<Rightarrow> real \<Rightarrow> real option" where
  "el_sample p az el eltc =
     (if sin el = 0 \<or> cos el = 0 then None
      else Some (el - eld_sample p az el eltc * (pi / (180 * 60))))"

text \<open>
  \<open>apply_pointing_model\<close>: the assertion on the two parameter vectors, then the arrays
  \<open>az\<close> and \<open>el\<close>.  The three input arrays are the scan's, of one length; other lengths
  make the element-wise arithmetic raise ValueError.
\<close>

definition apply_pointing_model :: "pointing \<Rightarrow> error + (real option list \<times> real option list)" where
  "apply_pointing_model p =
     (if length (value_params p) \<noteq> length (str_split (allowed_params p)) then Inl AssertionError
      else if \<not> same_shape [az_enc p, el_enc p, time p] then Inl ValueError
      else
        (case elt_contribution p of
           Inl e \<Rightarrow> Inl e
         | Inr eltc \<Rightarrow>
             Inr (map2 (az_sample p) (az_enc p) (el_enc p),
                  map2 (\<lambda>(az, el) c. el_sample p az el c) (zip (az_enc p) (el_enc p)) eltc)))"

section \<open>The pixel indexer (build_pointing_matrix of s4cmb/tod.py)\<close>

text \<open>
  The collaborators that the two source files import and do not define are parameters:
  \<^item> \<open>offset_detector\<close> is \<open>Pointing.offset_detector\<close> of \<open>s4cmb.detector_pointing\<close>: from
    the focal-plane offsets of a detector to its right ascension, declination and
    parallactic angle at every sample;
  \<^item> \<open>ang2pix\<close> is the resolution of a direction to a global pixel identifier:
    \<open>radec2thetaphi\<close>, the rotation to Galactic coordinates when \<open>ext_map_gal\<close> is set,
    and healpy's \<open>ang2pix\<close> at the resolution of the input map;
  \<^item> \<open>LamCyl\<close> is \<open>input_sky.LamCyl\<close>, the projection onto the plane.
\<close>

record env =
  offset_detector :: "real \<Rightarrow> real \<Rightarrow> real list \<times> real list \<times> real list"
  ang2pix :: "real \<Rightarrow> real \<Rightarrow> int"
  LamCyl :: "real \<Rightarrow> real \<Rightarrow> real \<times> real"

text \<open>
  \<open>ndarray.searchsorted\<close> (side left) is a binary search: the result is in
  \<open>0 .. len(a)\<close>, and on a sorted array it is the first position whose entry is not
  below the key.
\<close>

function bsearch :: "int list \<Rightarrow> int \<Rightarrow> nat \<Rightarrow> nat \<Rightarrow> nat" where
  "bsearch a key lo hi =
     (if lo < hi
      then (if a ! (lo + (hi - lo) div 2) < key
            then bsearch a key (lo + (hi - lo) div 2 + 1) hi
            else bsearch a key lo (lo + (hi - lo) div 2))
      else lo)"
  by pat_completeness auto
termination
  by (relation "measure (\<lambda>(a, key, lo, hi). hi - lo)") auto

definition searchsorted :: "int list \<Rightarrow> int \<Rightarrow> nat" where
  "searchsorted a key = bsearch a key 0 (length a)"

text \<open>\<open>np.int_\<close> of a finite float: the conversion truncates towards zero.\<close>

definition np_int :: "real \<Rightarrow> int" where
  "np_int r = (if 0 \<le> r then \<lfloor>r\<rfloor> else \<lceil>r\<rceil>)"

text \<open>
  \<open>build_pointing_matrix\<close>.  The arguments after the environment are \<open>ra\<close>, \<open>dec\<close>,
  \<open>projection\<close>, \<open>obspix\<close>, \<open>xmin\<close>, \<open>ymin\<close>, \<open>pixel_size\<close>, \<open>npix_per_row\<close> and
  \<open>cut_outliers\<close>; \<open>nside\<close> and \<open>ext_map_gal\<close> are part of \<open>ang2pix\<close>.  The result is
  \<open>(index_global, index_local)\<close>.
  In the healpix branch \<open>loc\<close> is another name of the array \<open>mask1\<close>, and
  \<open>loc[mask1] = obspix[index_local[mask1]] == index_global[mask1]\<close> leaves it true where
  the position is inside \<open>obspix\<close> and the entry there is the global identifier.
  In the flat branch a zero \<open>pixel_size\<close> makes the quotients non-finite.
\<close>

definition build_pointing_matrix ::
  "env \<Rightarrow> real list \<Rightarrow> real list \<Rightarrow> projection \<Rightarrow> int list option
     \<Rightarrow> real \<Rightarrow> real \<Rightarrow> real \<Rightarrow> int \<Rightarrow> bool \<Rightarrow> error + (int list \<times> int list option)" where
  "build_pointing_matrix E ra dec pr ob xmin ymin pixsize npix_per_row cut_outliers =
     (if length ra \<noteq> length dec then Inl ValueError
      else
        let index_global = map2 (ang2pix E) ra dec
        in (case (pr, ob) of
              (healpix, Some obs) \<Rightarrow>
                (let npix = length obs;
                     index_local = map (searchsorted obs) index_global;
                     mask1 = map (\<lambda>i. i < npix) index_local;
                     loc = map2 (\<lambda>(mk, i) g. mk \<and> obs ! i = g) (zip mask1 index_local) index_global;
                     outside_pixels = map Not loc
                 in if list_ex id outside_pixels \<and> \<not> cut_outliers then Inl ValueError
                    else Inr (index_global,
                              Some (map2 (\<lambda>out i. if out then - 1 else int i)
                                      outside_pixels index_local)))
            | (healpix, None) \<Rightarrow> Inr (index_global, None)
            | (flat, _) \<Rightarrow>
                (if pixsize = 0 then Inl Undefined
                 else
                   let xy = map2 (LamCyl E) ra dec;
                       x = map fst xy;
                       y = map snd xy;
                       xminmap = xmin - pixsize / 2;
                       yminmap = ymin - pixsize / 2;
                       ix = map (\<lambda>v. np_int ((v - xminmap) / pixsize)) x;
                       iy = map (\<lambda>v. np_int ((v - yminmap) / pixsize)) y;
                       index_local = map2 (\<lambda>a b. a * npix_per_row + b) ix iy;
                       outside = map2 (\<lambda>a b. a < 0 \<or> a \<ge> npix_per_row \<or> b < 0 \<or> b \<ge> npix_per_row)
                                   ix iy
                   in Inr (index_global,
                           Some (map2 (\<lambda>out i. if out then - 1 else i) outside index_local)))))"

text \<open>
  The extent of the grid on the plane, from the same \<open>xmin\<close>, \<open>ymin\<close>, \<open>pixel_size\<close> and
  \<open>npix_per_row\<close>: \<open>npix_per_row\<close> pixels of side \<open>pixel_size\<close> on each axis, the first
  one starting at \<open>xminmap\<close> (\<open>yminmap\<close>).
\<close>

definition in_grid_extent :: "real \<Rightarrow> real \<Rightarrow> real \<Rightarrow> int \<Rightarrow> real \<times> real \<Rightarrow> bool" where
  "in_grid_extent xmin ymin pixsize npix_per_row xy =
     (let xminmap = xmin - pixsize / 2; yminmap = ymin - pixsize / 2
      in xminmap \<le> fst xy \<and> fst xy < xminmap + real_of_int npix_per_row * pixsize \<and>
         yminmap \<le> snd xy \<and> snd xy < yminmap + real_of_int npix_per_row * pixsize)"

section \<open>The projection engine (class TimeOrderedDataPairDiff of s4cmb/tod.py)\<close>

text \<open>
  The input sky, as far as \<open>map2tod\<close> reads it: the three maps and \<open>do_pol\<close>.
\<close>

record HealpixFitsMap =
  sky_I :: "real list"
  sky_Q :: "real list"
  sky_U :: "real list"
  do_pol :: bool

text \<open>
  The attributes of the object that \<open>map2tod\<close> and \<open>tod2map\<close> read and write.
  \<open>point_matrix\<close> is an \<open>int32\<close> array of \<open>npair\<close> rows and \<open>nsamples\<close> columns, \<open>pol_angs\<close>
  and \<open>wafermask_pixel\<close> have the same shape, \<open>sum_weight\<close> and \<open>diff_weight\<close> have one
  entry per pair.  Fields whose names the accumulator has too carry the prefix \<open>tod_\<close>.
\<close>

record TimeOrderedDataPairDiff =
  tod_projection :: projection
  sky :: HealpixFitsMap
  nsamples :: nat
  npair :: nat
  xpos :: "real list"
  ypos :: "real list"
  intrinsic_polangle :: "real list"
  hwpangle :: "real list"
  width :: real
  pixel_size :: real
  tod_obspix :: "int list"
  tod_npixsky :: nat
  point_matrix :: "int32 list list"
  pol_angs :: "real list list"
  wafermask_pixel :: "int list list"
  sum_weight :: "real list"
  diff_weight :: "real list"

text \<open>
  \<open>int(np.sqrt(n))\<close> for a pixel count: the integer square root.
\<close>

fun isqrt_upto :: "nat \<Rightarrow> nat \<Rightarrow> nat" where
  "isqrt_upto n 0 = 0"
| "isqrt_upto n (Suc k) = (if Suc k * Suc k \<le> n then Suc k else isqrt_upto n k)"

definition isqrt :: "nat \<Rightarrow> nat" where
  "isqrt n = isqrt_upto n n"

text \<open>
  \<open>compute_simpolangle\<close> with \<open>polangle_err=False\<close>, the only value that \<open>map2tod\<close>
  passes (the other one leaves the program).
\<close>

definition compute_simpolangle ::
  "TimeOrderedDataPairDiff \<Rightarrow> nat \<Rightarrow> real list \<Rightarrow> bool \<Rightarrow> error + real list" where
  "compute_simpolangle t ch parallactic_angle do_demodulation =
     (if ch \<ge> length (intrinsic_polangle t) then Inl IndexError
      else if length parallactic_angle \<noteq> length (hwpangle t) then Inl ValueError
      else
        let ang_pix = (90 - intrinsic_polangle t ! ch) * d2r
        in if \<not> do_demodulation
           then Inr (map2 (\<lambda>pa h. pa + ang_pix + 2 * h) parallactic_angle (hwpangle t))
           else Inr (map2 (\<lambda>pa h. pa - ang_pix - 2 * h) parallactic_angle (hwpangle t)))"

text \<open>
  The assignment \<open>M[row] = v\<close> to a row of a two-dimensional array: the row must exist,
  and \<open>v\<close> must have the row's length or length one.
\<close>

definition store_row :: "'a list list \<Rightarrow> nat \<Rightarrow> 'a list \<Rightarrow> error + 'a list list" where
  "store_row M row v =
     (if row \<ge> length M then Inl IndexError
      else if length v = length (M ! row) then Inr (M[row := v])
      else if length v = 1 then Inr (M[row := replicate (length (M ! row)) (hd v)])
      else Inl ValueError)"

text \<open>
  The first part of \<open>map2tod\<close> for the channel \<open>ch\<close>, a position in the focal plane's
  arrays: the detector's beam offsets, its pointing, and the pixels on the sky.  The
  result is \<open>(pa, index_global, index_local)\<close>.  \<open>build_pointing_matrix\<close> is called with
  an \<open>obspix\<close> or with the flat projection, so \<open>index_local\<close> is an array.
\<close>

definition resolve_pixels ::
  "env \<Rightarrow> TimeOrderedDataPairDiff \<Rightarrow> nat \<Rightarrow> error + (real list \<times> int list \<times> int list)" where
  "resolve_pixels E t ch =
     (if ch \<ge> length (xpos t) \<or> ch \<ge> length (ypos t) then Inl IndexError
      else
        let (ra, dec, pa) = offset_detector E (xpos t ! ch) (ypos t ! ch)
        in (case (case tod_projection t of
                    flat \<Rightarrow>
                      build_pointing_matrix E ra dec flat None
                        (- width t / 2 * pi / 180) (- width t / 2 * pi / 180)
                        (pixel_size t) (int (isqrt (tod_npixsky t))) True
                  | healpix \<Rightarrow>
                      build_pointing_matrix E ra dec healpix (Some (tod_obspix t)) 0 0 0 0 True) of
              Inl e \<Rightarrow> Inl e
            | Inr (index_global, None) \<Rightarrow> Inl ValueError
            | Inr (index_global, Some index_local) \<Rightarrow> Inr (pa, index_global, index_local)))"

text \<open>
  \<open>map2tod\<close>.  The result is the timestream and the object as the call leaves it.
  Storing into the \<open>int32\<close> array converts each local index to 32 bits.  The gain
  \<open>norm\<close> is 1.0.
\<close>

definition map2tod ::
  "env \<Rightarrow> TimeOrderedDataPairDiff \<Rightarrow> nat \<Rightarrow> error + (real list \<times> TimeOrderedDataPairDiff)" where
  "map2tod E t ch =
     (case resolve_pixels E t ch of
        Inl e \<Rightarrow> Inl e
      | Inr (pa, index_global, index_local) \<Rightarrow>
          (case (if ch mod 2 = 0
                 then store_row (point_matrix t) (ch div 2) (map of_int index_local)
                 else Inr (point_matrix t)) of
             Inl e \<Rightarrow> Inl e
           | Inr pm \<Rightarrow>
               (if do_pol (sky t)
                then
                  (case compute_simpolangle t ch pa False of
                     Inl e \<Rightarrow> Inl e
                   | Inr pol_ang \<Rightarrow>
                       (case (if ch mod 2 = 0
                              then store_row (pol_angs t) (ch div 2) pol_ang
                              else Inr (pol_angs t)) of
                          Inl e \<Rightarrow> Inl e
                        | Inr pas \<Rightarrow>
                            (case take_items (sky_I (sky t)) index_global of
                               Inl e \<Rightarrow> Inl e
                             | Inr Iv \<Rightarrow>
                            (case take_items (sky_Q (sky t)) index_global of
                               Inl e \<Rightarrow> Inl e
                             | Inr Qv \<Rightarrow>
                            (case take_items (sky_U (sky t)) index_global of
                               Inl e \<Rightarrow> Inl e
                             | Inr Uv \<Rightarrow>
                                 (if length pol_ang \<noteq> length index_global then Inl ValueError
                                  else
                                    Inr (map (\<lambda>j. (Iv ! j + Qv ! j * cos (2 * pol_ang ! j)
                                                     + Uv ! j * sin (2 * pol_ang ! j)) * 1)
                                           [0 ..< length index_global],
                                         t\<lparr>point_matrix := pm, pol_angs := pas\<rparr>)))))))
                else
                  (case take_items (sky_I (sky t)) index_global of
                     Inl e \<Rightarrow> Inl e
                   | Inr Iv \<Rightarrow> Inr (map (\<lambda>v. 1 * v) Iv, t\<lparr>point_matrix := pm\<rparr>)))))"

text \<open>
  The list comprehension of the tests, \<open>[tod.map2tod(det) for det in chs]\<close>.
\<close>

fun map2tod_all ::
  "env \<Rightarrow> TimeOrderedDataPairDiff \<Rightarrow> nat list
     \<Rightarrow> error + (real list list \<times> TimeOrderedDataPairDiff)" where
  "map2tod_all E t [] = Inr ([], t)"
| "map2tod_all E t (ch # r) =
     (case map2tod E t ch of
        Inl e \<Rightarrow> Inl e
      | Inr (ts, t') \<Rightarrow>
          (case map2tod_all E t' r of
             Inl e \<Rightarrow> Inl e
           | Inr (tss, t'') \<Rightarrow> Inr (ts # tss, t'')))"

subsection \<open>The accumulation kernel\<close>

text \<open>
  Modelled from the spec: \<open>tod_f.tod2map_alldet_f\<close>, the accumulation kernel of
  \<open>s4cmb.tod_f\<close>, is not among the source files.  Its contract: for every unmasked
  sample of every pair, accumulate into the local pixel's seven running sums the
  noise-weighted sum-timestream contribution to the intensity right-hand side and
  weight, and the noise-weighted difference-timestream contribution, split into cosine
  and sine components of twice the polarization angle, to the polarization right-hand
  side and its (cc, cs, ss) entries, and increment the hit counter; a masked sample
  (mask value zero, or sentinel pixel index) contributes nothing.  The arrays arrive
  flattened, the timestreams of a pair interleaved (rows \<open>2 i\<close> and \<open>2 i + 1\<close>).  Sum and
  difference are the half sum and the half difference of the pair.  A local index that
  is not in \<open>0 ..< npixsky\<close> is outside the contract; the model lets it contribute
  nothing, as the sentinel.
\<close>

definition accumulate_sample ::
  "OutputSkyMap \<Rightarrow> nat \<Rightarrow> real \<Rightarrow> real \<Rightarrow> real \<Rightarrow> real \<Rightarrow> real \<Rightarrow> OutputSkyMap" where
  "accumulate_sample m p ang ts_top ts_bottom sw dw =
     (let sm = (ts_top + ts_bottom) / 2;
          df = (ts_top - ts_bottom) / 2;
          c = cos (2 * ang);
          s = sin (2 * ang)
      in m\<lparr> d := (d m)[p := d m ! p + sw * sm],
            w := (w m)[p := w m ! p + sw],
            dc := (dc m)[p := dc m ! p + dw * c * df],
            ds := (ds m)[p := ds m ! p + dw * s * df],
            cc := (cc m)[p := cc m ! p + dw * c * c],
            cs := (cs m)[p := cs m ! p + dw * c * s],
            ss := (ss m)[p := ss m ! p + dw * s * s],
            nhit := (nhit m)[p := nhit m ! p + 1] \<rparr>)"

definition kernel_step ::
  "int32 list \<Rightarrow> real list \<Rightarrow> real list \<Rightarrow> real list \<Rightarrow> real list \<Rightarrow> nat \<Rightarrow> int list \<Rightarrow> nat
     \<Rightarrow> nat \<Rightarrow> nat \<Rightarrow> OutputSkyMap \<Rightarrow> OutputSkyMap" where
  "kernel_step pm pa ts dwt swt nt msk npix i j m =
     (let k = i * nt + j; ipix = sint (pm ! k)
      in if msk ! k \<noteq> 0 \<and> 0 \<le> ipix \<and> ipix < int npix
         then accumulate_sample m (nat ipix) (pa ! k)
                (ts ! (2 * i * nt + j)) (ts ! ((2 * i + 1) * nt + j)) (swt ! i) (dwt ! i)
         else m)"

definition tod2map_alldet_f ::
  "OutputSkyMap \<Rightarrow> int32 list \<Rightarrow> real list \<Rightarrow> real list \<Rightarrow> real list \<Rightarrow> real list \<Rightarrow> nat
     \<Rightarrow> int list \<Rightarrow> nat \<Rightarrow> nat \<Rightarrow> OutputSkyMap" where
  "tod2map_alldet_f m pm pa ts dwt swt nt msk npixfp npix =
     fold (\<lambda>i. fold (kernel_step pm pa ts dwt swt nt msk npix i) [0 ..< nt]) [0 ..< npixfp] m"

text \<open>
  \<open>tod2map\<close>: \<open>waferts\<close> is a two-dimensional array, one row per detector.  The asserts
  compare half the number of its rows and its number of columns with the shapes of
  \<open>point_matrix\<close>, \<open>pol_angs\<close> and the weights; then the flattened arrays go to the kernel,
  with the object's own \<open>npixsky\<close>.
\<close>

definition tod2map ::
  "TimeOrderedDataPairDiff \<Rightarrow> real list list \<Rightarrow> OutputSkyMap \<Rightarrow> error + OutputSkyMap" where
  "tod2map t waferts output_maps =
     (if waferts = [] \<or> \<not> same_shape waferts then Inl IndexError
      else
        let nrows = length waferts;
            nt = length (hd waferts)
        in if \<not> (nrows = 2 * length (point_matrix t)) then Inl AssertionError
           else if \<not> list_all (\<lambda>r. length r = nt) (point_matrix t) then Inl AssertionError
           else if \<not> (nrows = 2 * length (pol_angs t)) then Inl AssertionError
           else if \<not> list_all (\<lambda>r. length r = nt) (pol_angs t) then Inl AssertionError
           else if \<not> (nrows = 2 * length (diff_weight t)) then Inl AssertionError
           else if \<not> (nrows = 2 * length (sum_weight t)) then Inl AssertionError
           else
             Inr (tod2map_alldet_f output_maps
                    (concat (point_matrix t)) (concat (pol_angs t)) (concat waferts)
                    (diff_weight t) (sum_weight t) nt
                    (concat (wafermask_pixel t)) (nrows div 2) (tod_npixsky t)))"

text \<open>
  The round trip of the tests of \<open>tod2map\<close>: the timestreams of all \<open>2 * npair\<close> channels,
  an empty accumulator (with the observed pixels for the healpix projection, with the
  pixel count for the flat one), \<open>tod2map\<close>, and the solved maps.
\<close>

definition map_tod_map ::
  "env \<Rightarrow> TimeOrderedDataPairDiff
     \<Rightarrow> error + ((real list \<times> real list \<times> real list) \<times> OutputSkyMap)" where
  "map_tod_map E t =
     (case map2tod_all E t [0 ..< 2 * npair t] of
        Inl e \<Rightarrow> Inl e
      | Inr (waferts, t') \<Rightarrow>
          (case (case tod_projection t' of
                   healpix \<Rightarrow> new_OutputSkyMap healpix (Some (tod_obspix t')) None
                 | flat \<Rightarrow> new_OutputSkyMap flat None (Some (tod_npixsky t'))) of
             Inl e \<Rightarrow> Inl e
           | Inr m \<Rightarrow>
               (case tod2map t' waferts m of
                  Inl e \<Rightarrow> Inl e
                | Inr m' \<Rightarrow> get_IQU m')))"

section \<open>Auxiliary notions for the statements\<close>

text \<open>
  The inverse determinant of one pixel as \<open>get_QU\<close> leaves it: zero below the
  threshold, the reciprocal elsewhere.
\<close>

definition idet_px :: "OutputSkyMap \<Rightarrow> nat \<Rightarrow> real" where
  "idet_px m p = (let t = cc m ! p * ss m ! p - cs m ! p * cs m ! p
                  in if \<bar>t\<bar> < thresh then 0 else 1 / t)"

text \<open>Two accumulators whose vectors have pairwise the same length.\<close>

definition shapes_agree :: "OutputSkyMap \<Rightarrow> OutputSkyMap \<Rightarrow> bool" where
  "shapes_agree m b =
     (length (d b) = length (d m) \<and> length (dc b) = length (dc m) \<and>
      length (ds b) = length (ds m) \<and> length (w b) = length (w m) \<and>
      length (cc b) = length (cc m) \<and> length (cs b) = length (cs m) \<and>
      length (ss b) = length (ss m) \<and> length (nhit b) = length (nhit m))"

text \<open>
  Example accumulators: two pixels, the second one without weight and with a singular
  polarization system; and four pixels hit once each, as in the examples of \<open>coadd\<close>.
\<close>

definition m_ex :: OutputSkyMap where
  "m_ex = (initialise_sky_maps healpix (Some [7, 9]) 2)
            \<lparr> d := [6, 5], w := [2, 0], dc := [1, 1], ds := [1, 1],
              cc := [1, 1], cs := [1, 1], ss := [1, 1] \<rparr>"

definition m_unit_hits :: OutputSkyMap where
  "m_unit_hits = (initialise_sky_maps healpix (Some [0, 1, 2, 3]) 4) \<lparr> nhit := [1, 1, 1, 1] \<rparr>"

text \<open>A scan of two samples at elevation \<open>pi / 6\<close>, with two parameters at zero.\<close>

definition p_ex :: pointing where
  "p_ex = \<lparr> az_enc = [0, 1], el_enc = [pi / 6, pi / 6], time = [5, 6], value_params = [0, 0],
            allowed_params = ''ia ie'', lat = 0 \<rparr>"

text \<open>An environment of one sample per scan, every direction in the pixel 0.\<close>

definition E_ex :: env where
  "E_ex = \<lparr> offset_detector = (\<lambda>azd eld. ([0], [0], [0])),
            ang2pix = (\<lambda>ra dec. 0),
            LamCyl = (\<lambda>ra dec. (ra, sin dec)) \<rparr>"

text \<open>
  What \<open>map2tod\<close> computes for a channel in the healpix projection of a polarized sky, as
  functions of the channel: the parallactic angles, the global and the local pixel
  indices, the polarization angles and the timestream.
\<close>

definition pa_of :: "env \<Rightarrow> TimeOrderedDataPairDiff \<Rightarrow> nat \<Rightarrow> real list" where
  "pa_of E t ch = snd (snd (offset_detector E (xpos t ! ch) (ypos t ! ch)))"

definition ig_of :: "env \<Rightarrow> TimeOrderedDataPairDiff \<Rightarrow> nat \<Rightarrow> int list" where
  "ig_of E t ch =
     map2 (ang2pix E) (fst (offset_detector E (xpos t ! ch) (ypos t ! ch)))
       (fst (snd (offset_detector E (xpos t ! ch) (ypos t ! ch))))"

definition il_of :: "env \<Rightarrow> TimeOrderedDataPairDiff \<Rightarrow> nat \<Rightarrow> int list" where
  "il_of E t ch =
     map (\<lambda>g. if searchsorted (tod_obspix t) g < length (tod_obspix t) \<and>
                  tod_obspix t ! searchsorted (tod_obspix t) g = g
               then int (searchsorted (tod_obspix t) g) else - 1)
       (ig_of E t ch)"

definition polang_of :: "env \<Rightarrow> TimeOrderedDataPairDiff \<Rightarrow> nat \<Rightarrow> real list" where
  "polang_of E t ch =
     map2 (\<lambda>pa h. pa + (90 - intrinsic_polangle t ! ch) * d2r + 2 * h) (pa_of E t ch) (hwpangle t)"

definition ts_of :: "env \<Rightarrow> TimeOrderedDataPairDiff \<Rightarrow> nat \<Rightarrow> real list" where
  "ts_of E t ch =
     map (\<lambda>j. sky_I (sky t) ! nat (ig_of E t ch ! j)
             + sky_Q (sky t) ! nat (ig_of E t ch ! j) * cos (2 * polang_of E t ch ! j)
             + sky_U (sky t) ! nat (ig_of E t ch ! j) * sin (2 * polang_of E t ch ! j))
       [0 ..< nsamples t]"




text \<open>
  The example of one pair and one sample: a polarized sky of one pixel, the detectors of the pair 90 degrees apart, the object as the constructor leaves it.
\<close>

definition tod_ex :: TimeOrderedDataPairDiff where
  "tod_ex = \<lparr> tod_projection = healpix,
              sky = \<lparr> sky_I = [1], sky_Q = [1], sky_U = [0], do_pol = True \<rparr>,
              nsamples = 1, npair = 1, xpos = [0, 0], ypos = [0, 0],
              intrinsic_polangle = [90, 0], hwpangle = [0], width = 20, pixel_size = 1,
              tod_obspix = [0], tod_npixsky = 1,
              point_matrix = [[0]], pol_angs = [[0]], wafermask_pixel = [[1]],
              sum_weight = [1], diff_weight = [1] \<rparr>"

text \<open>
  The same object with other contents in the pointing matrix and the polarization angles.
\<close>

definition tod_dirty :: TimeOrderedDataPairDiff where
  "tod_dirty = tod_ex\<lparr>point_matrix := [[7]], pol_angs := [[9]]\<rparr>"

text \<open>
  The same object on a sky without polarization.
\<close>

definition tod_nopol :: TimeOrderedDataPairDiff where
  "tod_nopol = tod_ex\<lparr>sky := (sky tod_ex)\<lparr>do_pol := False\<rparr>, pol_angs := [[9]]\<rparr>"



text \<open>
  An example in the flat projection: a grid of two by two pixels of side 1 around the origin, two samples in one grid pixel that resolve to two pixels of the input map, an unpolarized sky.
\<close>

definition E_flat :: env where
  "E_flat = \<lparr> offset_detector = (\<lambda>azd eld. ([0, 1 / 4], [0, 0], [0, 0])),
              ang2pix = (\<lambda>ra dec. if ra < 1 / 8 then 0 else 1),
              LamCyl = (\<lambda>ra dec. (ra, sin dec)) \<rparr>"

definition tod_flat :: TimeOrderedDataPairDiff where
  "tod_flat = \<lparr> tod_projection = flat,
                sky = \<lparr> sky_I = [1, 3], sky_Q = [0, 0], sky_U = [0, 0], do_pol = False \<rparr>,
                nsamples = 2, npair = 1, xpos = [0, 0], ypos = [0, 0],
                intrinsic_polangle = [90, 180], hwpangle = [0, 0], width = 180 / pi,
                pixel_size = 1, tod_obspix = [0, 1], tod_npixsky = 4,
                point_matrix = [[0, 0]], pol_angs = [[0, 0]], wafermask_pixel = [[1, 1]],
                sum_weight = [1], diff_weight = [1] \<rparr>"

section \<open>The solver\<close>

lemma same_shape5:
  "same_shape [a, b, c, e, f] \<longleftrightarrow>
     (length b = length a \<and> length c = length a \<and> length e = length a \<and> length f = length a)"
  by (simp add: same_shape_def)

lemma get_I_wf:
  assumes "wf_maps m"
  shows "get_I m = Inr (map (\<lambda>p. if w m ! p > 0 then d m ! p / w m ! p else 0) [0 ..< npixsky m])"
  using assms by (simp add: get_I_def wf_maps_def)

lemma thresh_pos: "0 < thresh"
  by (simp add: thresh_def)

lemma get_QU_wf:
  assumes "wf_maps m"
  shows "get_QU m =
     Inr ((map (\<lambda>p. idet_px m p * (ss m ! p * dc m ! p - cs m ! p * ds m ! p)) [0 ..< npixsky m],
           map (\<lambda>p. idet_px m p * (- cs m ! p * dc m ! p + cc m ! p * ds m ! p)) [0 ..< npixsky m]),
          m\<lparr>idet := Some (map (idet_px m) [0 ..< npixsky m])\<rparr>)"
proof -
  have len: "length (cc m) = npixsky m" "length (ss m) = npixsky m" "length (cs m) = npixsky m"
    "length (dc m) = npixsky m" "length (ds m) = npixsky m"
    using assms by (simp_all add: wf_maps_def)
  have sh: "same_shape [cc m, ss m, cs m, dc m, ds m]"
    by (simp add: same_shape5 len)
  let ?testcc = "map2 (-) (map2 times (cc m) (ss m)) (map2 times (cs m) (cs m))"
  let ?idet1 = "map2 (\<lambda>nz t. if nz then 1 / t else 0) (map (\<lambda>t. t \<noteq> 0) ?testcc) ?testcc"
  let ?idet2 = "map2 (\<lambda>z i. if z then 0 else i) (map (\<lambda>t. \<bar>t\<bar> < thresh) ?testcc) ?idet1"
  have i2: "?idet2 = map (idet_px m) [0 ..< npixsky m]"
    using thresh_pos by (intro nth_equalityI) (auto simp: len idet_px_def Let_def)
  have q: "map2 times ?idet2 (map2 (-) (map2 times (ss m) (dc m)) (map2 times (cs m) (ds m)))
      = map (\<lambda>p. idet_px m p * (ss m ! p * dc m ! p - cs m ! p * ds m ! p)) [0 ..< npixsky m]"
    unfolding i2 by (intro nth_equalityI) (auto simp: len)
  have u: "map2 times ?idet2 (map2 (+) (map2 times (map uminus (cs m)) (dc m)) (map2 times (cc m) (ds m)))
      = map (\<lambda>p. idet_px m p * (- cs m ! p * dc m ! p + cc m ! p * ds m ! p)) [0 ..< npixsky m]"
    unfolding i2 by (intro nth_equalityI) (auto simp: len)
  show ?thesis
    unfolding get_QU_def Let_def using sh q u i2 by simp
qed




text \<open>
  Claim C10 (solver purity).  \<open>get_I\<close> returns a map and no object: it assigns to
  nothing.  \<open>get_QU\<close> and \<open>get_IQU\<close> leave the seven arrays \<open>d\<close>, \<open>dc\<close>, \<open>ds\<close>, \<open>w\<close>,
  \<open>cc\<close>, \<open>cs\<close>, \<open>ss\<close> and the hit counts as they were; the object after the call differs
  from the one before at most in the attribute \<open>idet\<close>, the inverse determinants that
  \<open>get_QU\<close> keeps.  The maps are functions of the accumulator: \<open>get_IQU\<close> returns what
  \<open>get_I\<close> and \<open>get_QU\<close> return.
\<close>

theorem solver_pure:
  assumes "wf_maps m"
  shows "\<exists>Iv Qv Uv m1 m2.
           get_I m = Inr Iv \<and> get_QU m = Inr ((Qv, Uv), m1) \<and> get_IQU m = Inr ((Iv, Qv, Uv), m2) \<and>
           m2 = m1 \<and> m1\<lparr>idet := idet m\<rparr> = m \<and>
           d m1 = d m \<and> dc m1 = dc m \<and> ds m1 = ds m \<and> w m1 = w m \<and>
           cc m1 = cc m \<and> cs m1 = cs m \<and> ss m1 = ss m \<and> nhit m1 = nhit m"
  using assms by (simp add: get_I_wf get_QU_wf get_IQU_def)

text \<open>The example accumulator is well-formed, and \<open>get_IQU\<close> leaves its arrays.\<close>

theorem solver_pure_witness:
  "wf_maps m_ex \<and>
   (\<exists>Iv Qv Uv m1.
      get_IQU m_ex = Inr ((Iv, Qv, Uv), m1) \<and>
      d m1 = d m_ex \<and> dc m1 = dc m_ex \<and> ds m1 = ds m_ex \<and> w m1 = w m_ex \<and>
      cc m1 = cc m_ex \<and> cs m1 = cs m_ex \<and> ss m1 = ss m_ex \<and> nhit m1 = nhit m_ex)"
proof -
  have h1: "wf_maps m_ex"
    by (simp add: wf_maps_def m_ex_def initialise_sky_maps_def)
  from solver_pure [OF h1] h1 show ?thesis by blast
qed

section \<open>The solver on NaN entries\<close>

lemma fmul_NaN [simp]: "fmul NaN x = NaN" "fmul x NaN = NaN"
  by (cases x; simp)+

lemma fsub_NaN [simp]: "fsub NaN x = NaN" "fsub x NaN = NaN"
  by (cases x; simp)+

lemma fadd_NaN [simp]: "fadd NaN x = NaN" "fadd x NaN = NaN"
  by (cases x; simp)+

lemma det_NaN_cases:
  "fsub (fmul a b) (fmul c c) = NaN \<longleftrightarrow> a = NaN \<or> b = NaN \<or> c = NaN"
  by (cases a; cases b; cases c; simp)

lemma get_QU_fp_nth:
  assumes "length csv = length ccv" "length ssv = length ccv" "length dcv = length ccv"
    "length dsv = length ccv" "p < length ccv"
    and "get_QU_fp fr ccv csv ssv dcv dsv = Inr (iv, Qv, Uv)"
  shows "iv ! p =
           (let t = fsub (fmul (ccv ! p) (ssv ! p)) (fmul (csv ! p) (csv ! p));
                i1 = (if fne0 t then frecip t else Fin 0);
                z = (if fr \<and> list_ex isnan (map2 fsub (map2 fmul ccv ssv) (map2 fmul csv csv))
                     then isnan t \<or> fabs_lt t thresh else fabs_lt t thresh)
            in if z then Fin 0 else i1)"
    and "Qv ! p = fmul (iv ! p) (fsub (fmul (ssv ! p) (dcv ! p)) (fmul (csv ! p) (dsv ! p)))"
    and "Uv ! p = fmul (iv ! p) (fadd (fmul (fneg (csv ! p)) (dcv ! p)) (fmul (ccv ! p) (dsv ! p)))"
  using assms by (auto simp: get_QU_fp_def same_shape5 Let_def split: if_splits)

lemma get_QU_fp_nan_pixel:
  assumes "length csv = length ccv" "length ssv = length ccv" "length dcv = length ccv"
    "length dsv = length ccv" "p < length ccv"
    and "get_QU_fp fr ccv csv ssv dcv dsv = Inr (iv, Qv, Uv)"
    and "fsub (fmul (ccv ! p) (ssv ! p)) (fmul (csv ! p) (csv ! p)) = NaN"
  shows "(\<not> fr \<longrightarrow> iv ! p = NaN \<and> Qv ! p = NaN \<and> Uv ! p = NaN)"
    and "fr \<longrightarrow> iv ! p = Fin 0"
    and "Qv ! p = NaN \<or> Uv ! p = NaN"
proof -
  note n = get_QU_fp_nth [OF assms(1-6)]
  let ?t = "map2 fsub (map2 fmul ccv ssv) (map2 fmul csv csv)"
  have "?t ! p = NaN" using assms(1-5,7) by simp
  moreover have "p < length ?t" using assms(1-5) by simp
  ultimately have ex: "list_ex isnan ?t"
    unfolding list_ex_iff by (metis isnan.simps(1) nth_mem)
  show "\<not> fr \<longrightarrow> iv ! p = NaN \<and> Qv ! p = NaN \<and> Uv ! p = NaN"
    using n assms(7) by (simp add: Let_def)
  show "fr \<longrightarrow> iv ! p = Fin 0"
    using n(1) assms(7) ex by (simp add: Let_def)
  from assms(7) have "ccv ! p = NaN \<or> ssv ! p = NaN \<or> csv ! p = NaN"
    by (simp add: det_NaN_cases)
  then show "Qv ! p = NaN \<or> Uv ! p = NaN"
    using n(2,3) by (cases "iv ! p") auto
qed

text \<open>
  Claim C4 (NaN determinants are singular) at the pixel \<open>cc = NaN\<close>, \<open>cs = 0\<close>,
  \<open>ss = 1\<close>, \<open>dc = 0\<close>, \<open>ds = 1\<close>, whose determinant is NaN.  In numpy's default error
  state the comparison with the threshold is false and does not raise: the inverse
  determinant stays NaN, and so are Q and U.  Where the comparison raises, the \<open>except\<close>
  branch sets the inverse determinant to zero, and U is still NaN, the product of zero
  and NaN.
\<close>

theorem get_QU_nan_determinant:
  "get_QU_fp False [NaN] [Fin 0] [Fin 1] [Fin 0] [Fin 1] = Inr ([NaN], [NaN], [NaN]) \<and>
   get_QU_fp True [NaN] [Fin 0] [Fin 1] [Fin 0] [Fin 1] = Inr ([Fin 0], [Fin 0], [NaN])"
  by (simp add: get_QU_fp_def same_shape_def thresh_def Let_def)

lemma get_QU_fp_finite:
  assumes "wf_maps m" and "get_QU m = Inr ((Qv, Uv), m')"
  shows "get_QU_fp fr (map Fin (cc m)) (map Fin (cs m)) (map Fin (ss m)) (map Fin (dc m))
           (map Fin (ds m)) = Inr (map Fin (the (idet m')), map Fin Qv, map Fin Uv)"
proof -
  have len: "length (cc m) = npixsky m" "length (ss m) = npixsky m" "length (cs m) = npixsky m"
    "length (dc m) = npixsky m" "length (ds m) = npixsky m"
    using assms(1) by (simp_all add: wf_maps_def)
  have sh: "same_shape [cc m, ss m, cs m, dc m, ds m]"
    by (simp add: same_shape5 len)
  let ?t = "map2 (-) (map2 times (cc m) (ss m)) (map2 times (cs m) (cs m))"
  let ?tf = "map2 fsub (map2 fmul (map Fin (cc m)) (map Fin (ss m)))
               (map2 fmul (map Fin (cs m)) (map Fin (cs m)))"
  have t: "?tf = map Fin ?t"
    by (intro nth_equalityI) (simp_all add: len)
  have nonan: "\<not> list_ex isnan (map Fin xs)" for xs
    by (simp add: list_ex_iff)
  let ?i1 = "map2 (\<lambda>nz t. if nz then 1 / t else 0) (map (\<lambda>t. t \<noteq> 0) ?t) ?t"
  let ?i2 = "map2 (\<lambda>z i. if z then 0 else i) (map (\<lambda>t. \<bar>t\<bar> < thresh) ?t) ?i1"
  have i2: "map2 (\<lambda>z i. if z then Fin 0 else i) (map (\<lambda>t. fabs_lt t thresh) (map Fin ?t))
              (map2 (\<lambda>nz t. if nz then frecip t else Fin 0) (map fne0 (map Fin ?t)) (map Fin ?t))
            = map Fin ?i2"
    by (intro nth_equalityI) (simp_all add: len)
  have q: "map2 fmul (map Fin ?i2)
             (map2 fsub (map2 fmul (map Fin (ss m)) (map Fin (dc m)))
                (map2 fmul (map Fin (cs m)) (map Fin (ds m))))
           = map Fin (map2 times ?i2 (map2 (-) (map2 times (ss m) (dc m)) (map2 times (cs m) (ds m))))"
    by (intro nth_equalityI) (simp_all add: len)
  have u: "map2 fmul (map Fin ?i2)
             (map2 fadd (map2 fmul (map fneg (map Fin (cs m))) (map Fin (dc m)))
                (map2 fmul (map Fin (cc m)) (map Fin (ds m))))
           = map Fin (map2 times ?i2
               (map2 (+) (map2 times (map uminus (cs m)) (dc m)) (map2 times (cc m) (ds m))))"
    by (intro nth_equalityI) (simp_all add: len)
  have shf: "same_shape [map Fin (cc m), map Fin (ss m), map Fin (cs m), map Fin (dc m), map Fin (ds m)]"
    by (simp add: same_shape5 len)
  have "get_QU_fp fr (map Fin (cc m)) (map Fin (cs m)) (map Fin (ss m)) (map Fin (dc m))
           (map Fin (ds m)) =
        Inr (map Fin ?i2,
             map Fin (map2 times ?i2 (map2 (-) (map2 times (ss m) (dc m)) (map2 times (cs m) (ds m)))),
             map Fin (map2 times ?i2
               (map2 (+) (map2 times (map uminus (cs m)) (dc m)) (map2 times (cc m) (ds m)))))"
    unfolding get_QU_fp_def Let_def using shf by (simp only: t nonan i2 q u if_False simp_thms)
  moreover have "Qv = map2 times ?i2 (map2 (-) (map2 times (ss m) (dc m)) (map2 times (cs m) (ds m)))"
    "Uv = map2 times ?i2 (map2 (+) (map2 times (map uminus (cs m)) (dc m)) (map2 times (cc m) (ds m)))"
    "the (idet m') = ?i2"
    using assms(2) sh unfolding get_QU_def Let_def by auto
  ultimately show ?thesis by simp
qed

section \<open>The combiner\<close>

lemma iadd_same: "length b = length a \<Longrightarrow> iadd a b = Inr (map2 (+) a b)"
  by (simp add: iadd_def)

lemma map2_add_zero:
  fixes a :: "('a::monoid_add) list"
  shows "length a = n \<Longrightarrow> map2 (+) a (replicate n 0) = a"
  by (intro nth_equalityI) auto

lemma np_all_eq_same: "np_all_eq ob ob"
  by (cases ob) (simp_all add: list_all2_eq [symmetric])

lemma coadd_loop_distinct:
  assumes "shapes_agree m b" and "distinct ks"
  shows "\<exists>r. coadd_loop b ks m = Inr r \<and>
           d r = (if V_d \<in> set ks then map2 (+) (d m) (d b) else d m) \<and>
           dc r = (if V_dc \<in> set ks then map2 (+) (dc m) (dc b) else dc m) \<and>
           ds r = (if V_ds \<in> set ks then map2 (+) (ds m) (ds b) else ds m) \<and>
           w r = (if V_w \<in> set ks then map2 (+) (w m) (w b) else w m) \<and>
           cc r = (if V_cc \<in> set ks then map2 (+) (cc m) (cc b) else cc m) \<and>
           cs r = (if V_cs \<in> set ks then map2 (+) (cs m) (cs b) else cs m) \<and>
           ss r = (if V_ss \<in> set ks then map2 (+) (ss m) (ss b) else ss m) \<and>
           nhit r = (if V_nhit \<in> set ks then map2 (+) (nhit m) (nhit b) else nhit m) \<and>
           obspix r = obspix m \<and> npixsky r = npixsky m \<and> projection r = projection m \<and>
           idet r = idet m"
  using assms
proof (induction ks arbitrary: m)
  case Nil
  then show ?case by simp
next
  case (Cons k ks)
  from Cons.prems obtain m1 where m1: "coadd_vector b k m = Inr m1" and sh1: "shapes_agree m1 b"
    by (cases k) (auto simp: shapes_agree_def iadd_same)
  from Cons.prems have dk: "distinct ks" "k \<notin> set ks" by simp_all
  from Cons.IH [OF sh1 dk(1)] obtain r where r: "coadd_loop b ks m1 = Inr r"
    and f: "d r = (if V_d \<in> set ks then map2 (+) (d m1) (d b) else d m1)"
           "dc r = (if V_dc \<in> set ks then map2 (+) (dc m1) (dc b) else dc m1)"
           "ds r = (if V_ds \<in> set ks then map2 (+) (ds m1) (ds b) else ds m1)"
           "w r = (if V_w \<in> set ks then map2 (+) (w m1) (w b) else w m1)"
           "cc r = (if V_cc \<in> set ks then map2 (+) (cc m1) (cc b) else cc m1)"
           "cs r = (if V_cs \<in> set ks then map2 (+) (cs m1) (cs b) else cs m1)"
           "ss r = (if V_ss \<in> set ks then map2 (+) (ss m1) (ss b) else ss m1)"
           "nhit r = (if V_nhit \<in> set ks then map2 (+) (nhit m1) (nhit b) else nhit m1)"
           "obspix r = obspix m1" "npixsky r = npixsky m1" "projection r = projection m1"
           "idet r = idet m1"
    by blast
  have "coadd_loop b (k # ks) m = Inr r" using m1 r by simp
  moreover have "d r = (if V_d \<in> set (k # ks) then map2 (+) (d m) (d b) else d m)"
    using m1 f(1) dk(2) Cons.prems(1) by (cases k) (auto simp: shapes_agree_def iadd_same)
  moreover have "dc r = (if V_dc \<in> set (k # ks) then map2 (+) (dc m) (dc b) else dc m)"
    using m1 f(2) dk(2) Cons.prems(1) by (cases k) (auto simp: shapes_agree_def iadd_same)
  moreover have "ds r = (if V_ds \<in> set (k # ks) then map2 (+) (ds m) (ds b) else ds m)"
    using m1 f(3) dk(2) Cons.prems(1) by (cases k) (auto simp: shapes_agree_def iadd_same)
  moreover have "w r = (if V_w \<in> set (k # ks) then map2 (+) (w m) (w b) else w m)"
    using m1 f(4) dk(2) Cons.prems(1) by (cases k) (auto simp: shapes_agree_def iadd_same)
  moreover have "cc r = (if V_cc \<in> set (k # ks) then map2 (+) (cc m) (cc b) else cc m)"
    using m1 f(5) dk(2) Cons.prems(1) by (cases k) (auto simp: shapes_agree_def iadd_same)
  moreover have "cs r = (if V_cs \<in> set (k # ks) then map2 (+) (cs m) (cs b) else cs m)"
    using m1 f(6) dk(2) Cons.prems(1) by (cases k) (auto simp: shapes_agree_def iadd_same)
  moreover have "ss r = (if V_ss \<in> set (k # ks) then map2 (+) (ss m) (ss b) else ss m)"
    using m1 f(7) dk(2) Cons.prems(1) by (cases k) (auto simp: shapes_agree_def iadd_same)
  moreover have "nhit r = (if V_nhit \<in> set (k # ks) then map2 (+) (nhit m) (nhit b) else nhit m)"
    using m1 f(8) dk(2) Cons.prems(1) by (cases k) (auto simp: shapes_agree_def iadd_same)
  moreover have "obspix r = obspix m \<and> npixsky r = npixsky m \<and> projection r = projection m \<and>
           idet r = idet m"
    using m1 f(9-12) Cons.prems(1) by (cases k) (auto simp: shapes_agree_def iadd_same)
  ultimately show ?case by blast
qed

lemma wf_shapes_agree:
  "wf_maps m \<Longrightarrow> wf_maps b \<Longrightarrow> npixsky b = npixsky m \<Longrightarrow> shapes_agree m b"
  by (simp add: wf_maps_def shapes_agree_def)


lemma map2_add_ones:
  "map2 (+) (replicate n (1::int32)) (replicate n 1) = replicate n 2"
  by (intro nth_equalityI) auto

text \<open>
  Claim C8 (coadd is element-wise addition with zero as identity).  For two
  accumulators of one layout (the same observed pixels and the same number of pixels, all
  arrays of that length) and names without repetition, \<open>coadd\<close> returns, and every named
  array of the result is the element-wise sum of the two arrays, every other array is as
  before.  When the arrays of the other accumulator are all zero, the result is the
  accumulator itself; when the hit counts are named and are all one in both, they are
  all two in the result.
\<close>

theorem coadd_elementwise:
  assumes "wf_maps m" and "wf_maps b" and "npixsky b = npixsky m" and "obspix b = obspix m"
    and "distinct to_coadd"
  shows "\<exists>r. coadd m b to_coadd = Inr r \<and>
           d r = (if V_d \<in> set to_coadd then map2 (+) (d m) (d b) else d m) \<and>
           dc r = (if V_dc \<in> set to_coadd then map2 (+) (dc m) (dc b) else dc m) \<and>
           ds r = (if V_ds \<in> set to_coadd then map2 (+) (ds m) (ds b) else ds m) \<and>
           w r = (if V_w \<in> set to_coadd then map2 (+) (w m) (w b) else w m) \<and>
           cc r = (if V_cc \<in> set to_coadd then map2 (+) (cc m) (cc b) else cc m) \<and>
           cs r = (if V_cs \<in> set to_coadd then map2 (+) (cs m) (cs b) else cs m) \<and>
           ss r = (if V_ss \<in> set to_coadd then map2 (+) (ss m) (ss b) else ss m) \<and>
           nhit r = (if V_nhit \<in> set to_coadd then map2 (+) (nhit m) (nhit b) else nhit m) \<and>
           (d b = replicate (npixsky m) 0 \<and> dc b = replicate (npixsky m) 0 \<and>
            ds b = replicate (npixsky m) 0 \<and> w b = replicate (npixsky m) 0 \<and>
            cc b = replicate (npixsky m) 0 \<and> cs b = replicate (npixsky m) 0 \<and>
            ss b = replicate (npixsky m) 0 \<and> nhit b = replicate (npixsky m) 0 \<longrightarrow> r = m) \<and>
           (V_nhit \<in> set to_coadd \<and> nhit m = replicate (npixsky m) 1 \<and>
            nhit b = replicate (npixsky m) 1 \<longrightarrow> nhit r = replicate (npixsky m) 2)"
proof -
  have sh: "shapes_agree m b"
    using assms(1-3) by (rule wf_shapes_agree)
  from coadd_loop_distinct [OF sh assms(5)] obtain r where r: "coadd_loop b to_coadd m = Inr r"
    and f: "d r = (if V_d \<in> set to_coadd then map2 (+) (d m) (d b) else d m)"
           "dc r = (if V_dc \<in> set to_coadd then map2 (+) (dc m) (dc b) else dc m)"
           "ds r = (if V_ds \<in> set to_coadd then map2 (+) (ds m) (ds b) else ds m)"
           "w r = (if V_w \<in> set to_coadd then map2 (+) (w m) (w b) else w m)"
           "cc r = (if V_cc \<in> set to_coadd then map2 (+) (cc m) (cc b) else cc m)"
           "cs r = (if V_cs \<in> set to_coadd then map2 (+) (cs m) (cs b) else cs m)"
           "ss r = (if V_ss \<in> set to_coadd then map2 (+) (ss m) (ss b) else ss m)"
           "nhit r = (if V_nhit \<in> set to_coadd then map2 (+) (nhit m) (nhit b) else nhit m)"
    and g: "obspix r = obspix m" "npixsky r = npixsky m" "projection r = projection m"
           "idet r = idet m"
    by blast
  have c: "coadd m b to_coadd = Inr r"
    using r assms(4) by (simp add: coadd_def np_all_eq_same)
  have len: "length (d m) = npixsky m" "length (dc m) = npixsky m" "length (ds m) = npixsky m"
    "length (w m) = npixsky m" "length (cc m) = npixsky m" "length (cs m) = npixsky m"
    "length (ss m) = npixsky m" "length (nhit m) = npixsky m"
    using assms(1) by (simp_all add: wf_maps_def)
  have z: "r = m"
    if "d b = replicate (npixsky m) 0 \<and> dc b = replicate (npixsky m) 0 \<and>
        ds b = replicate (npixsky m) 0 \<and> w b = replicate (npixsky m) 0 \<and>
        cc b = replicate (npixsky m) 0 \<and> cs b = replicate (npixsky m) 0 \<and>
        ss b = replicate (npixsky m) 0 \<and> nhit b = replicate (npixsky m) 0"
    using that f g len by (intro OutputSkyMap.equality) (simp_all add: map2_add_zero)
  have h: "nhit r = replicate (npixsky m) 2"
    if "V_nhit \<in> set to_coadd \<and> nhit m = replicate (npixsky m) 1 \<and>
        nhit b = replicate (npixsky m) 1"
    using that f(8) by (simp add: map2_add_ones)
  from c f z h show ?thesis by blast
qed

text \<open>The example of the source: two accumulators of four pixels hit once each.\<close>

theorem coadd_elementwise_witness:
  "wf_maps m_unit_hits \<and> distinct to_coadd_default \<and>
   (\<exists>r. coadd m_unit_hits m_unit_hits to_coadd_default = Inr r \<and> nhit r = [2, 2, 2, 2])"
proof -
  have h1: "wf_maps m_unit_hits"
    by (simp add: wf_maps_def m_unit_hits_def initialise_sky_maps_def)
  have h2: "distinct to_coadd_default"
    by (simp add: to_coadd_default_def)
  have n: "npixsky m_unit_hits = 4" "V_nhit \<in> set to_coadd_default"
    by (simp_all add: m_unit_hits_def initialise_sky_maps_def to_coadd_default_def)
  have n': "nhit m_unit_hits = replicate 4 1" "replicate 4 (2::int32) = [2, 2, 2, 2]"
    by (simp_all add: m_unit_hits_def initialise_sky_maps_def numeral_eq_Suc)
  from coadd_elementwise [OF h1 h1 refl refl h2] n n'
  have "\<exists>r. coadd m_unit_hits m_unit_hits to_coadd_default = Inr r \<and> nhit r = [2, 2, 2, 2]"
    by auto
  with h1 h2 show ?thesis by blast
qed


lemma np_all_eq_same_length:
  "length xs = length ys \<Longrightarrow> np_all_eq (Some xs) (Some ys) \<longleftrightarrow> xs = ys"
  by (simp add: list_all2_eq [symmetric])

lemma np_all_eq_nonempty_distinct:
  assumes "xs \<noteq> []" and "ys \<noteq> []" and "distinct xs" and "distinct ys"
  shows "np_all_eq (Some xs) (Some ys) \<longleftrightarrow> xs = ys"
proof (cases "length xs = length ys")
  case True
  then show ?thesis by (rule np_all_eq_same_length)
next
  case False
  have one: "\<exists>z\<in>set zs. z \<noteq> a" if "distinct zs" and "2 \<le> length zs" for a :: int and zs
  proof -
    from that(2) obtain u v r where zs: "zs = u # v # r"
      by (cases zs; cases "tl zs") auto
    with that(1) have "u \<noteq> v" by auto
    with zs show ?thesis by auto
  qed
  have "\<not> np_all_eq (Some xs) (Some ys)"
  proof (cases "length xs = 1")
    case True
    with False assms(2) have "2 \<le> length ys" by (cases ys; cases "tl ys") auto
    from one [OF assms(4) this, of "hd xs"] True False show ?thesis
      by (fastforce simp: list_all_iff)
  next
    case nx: False
    show ?thesis
    proof (cases "length ys = 1")
      case True
      with False assms(1) have "2 \<le> length xs" by (cases xs; cases "tl xs") auto
      from one [OF assms(3) this, of "hd ys"] True False nx show ?thesis
        by (fastforce simp: list_all_iff)
    next
      case False
      with nx \<open>length xs \<noteq> length ys\<close> show ?thesis by simp
    qed
  qed
  with False show ?thesis by auto
qed

text \<open>
  Claim C9 (coadd rejects mismatched patches) at an accumulator with no observed pixel
  and one with the observed pixel 5, both as the constructor makes them.  The observed
  pixels differ; the comparison \<open>self.obspix == other.obspix\<close> broadcasts the array of
  length one against the empty one, \<open>np.all\<close> of the empty result is true, the additions
  broadcast as well, and \<open>coadd\<close> returns without an error.
\<close>

theorem coadd_accepts_empty_against_one:
  "new_OutputSkyMap healpix (Some []) None = Inr (initialise_sky_maps healpix (Some []) 0) \<and>
   new_OutputSkyMap healpix (Some [5]) None = Inr (initialise_sky_maps healpix (Some [5]) 1) \<and>
   obspix (initialise_sky_maps healpix (Some []) 0) \<noteq> obspix (initialise_sky_maps healpix (Some [5]) 1) \<and>
   coadd (initialise_sky_maps healpix (Some []) 0) (initialise_sky_maps healpix (Some [5]) 1)
     to_coadd_default = Inr (initialise_sky_maps healpix (Some []) 0)"
  by (simp add: new_OutputSkyMap_def initialise_sky_maps_def coadd_def to_coadd_default_def
      iadd_def)

section \<open>The pointing model corrector\<close>

lemma list_index_less: "x \<in> set xs \<Longrightarrow> list_index xs x < length xs"
  by (induction xs) auto

lemma params_zero:
  assumes "length (value_params p) = length (str_split (allowed_params p))"
    and "\<forall>v\<in>set (value_params p). v = 0"
  shows "params p name = 0"
proof -
  have "value_params p ! list_index (str_split (allowed_params p)) n = 0"
    if "n \<in> set (str_split (allowed_params p))" for n
    using list_index_less [OF that] assms by (metis nth_mem)
  then show ?thesis by (auto simp: params_def Let_def)
qed

lemma np_min_Min: "xs \<noteq> [] \<Longrightarrow> np_min xs = Inr (Min (set xs))"
  by (cases xs) (simp_all flip: Min.set_eq_fold)

lemma same_shape3:
  "same_shape [a, b, c] \<longleftrightarrow> length b = length a \<and> length c = length a"
  by (simp add: same_shape_def)

text \<open>
  Claim C5 (pointing-corrector identity and determinism), amended.  With every supplied
  value zero (and as many values as names), on a scan that is not empty, whose three
  arrays have one length and whose elevations have a nonzero sine and cosine,
  \<open>apply_pointing_model\<close> returns the encoder azimuths and elevations.  The result is a
  function of the object's attributes, so two runs on the same inputs agree.
\<close>

theorem zero_params_identity:
  assumes "length (value_params p) = length (str_split (allowed_params p))"
    and "\<forall>v\<in>set (value_params p). v = 0"
    and "length (el_enc p) = length (az_enc p)" and "length (time p) = length (az_enc p)"
    and "time p \<noteq> []"
    and "\<forall>e\<in>set (el_enc p). sin e \<noteq> 0 \<and> cos e \<noteq> 0"
  shows "apply_pointing_model p = Inr (map Some (az_enc p), map Some (el_enc p))"
proof -
  note z = params_zero [OF assms(1,2)]
  from assms(5) obtain t0 where t0: "np_min (time p) = Inr t0"
    by (cases "time p") auto
  have eltc: "elt_contribution p = Inr (map (\<lambda>t. 0) (time p))"
    by (simp add: elt_contribution_def t0 z)
  have az: "map2 (az_sample p) (az_enc p) (el_enc p) = map Some (az_enc p)"
  proof (intro nth_equalityI)
    show "length (map2 (az_sample p) (az_enc p) (el_enc p)) = length (map Some (az_enc p))"
      using assms(3) by simp
    fix i assume "i < length (map2 (az_sample p) (az_enc p) (el_enc p))"
    then have i: "i < length (az_enc p)" "i < length (el_enc p)" by simp_all
    then have "cos (el_enc p ! i) \<noteq> 0" using assms(6) by (meson nth_mem)
    then show "map2 (az_sample p) (az_enc p) (el_enc p) ! i = map Some (az_enc p) ! i"
      using i by (simp add: az_sample_def azd_sample_def z)
  qed
  have el: "map2 (\<lambda>(az, el) c. el_sample p az el c) (zip (az_enc p) (el_enc p))
              (map (\<lambda>t. 0) (time p)) = map Some (el_enc p)"
  proof (intro nth_equalityI)
    show "length (map2 (\<lambda>(az, el) c. el_sample p az el c) (zip (az_enc p) (el_enc p))
              (map (\<lambda>t. 0) (time p))) = length (map Some (el_enc p))"
      using assms(3,4) by simp
    fix i assume "i < length (map2 (\<lambda>(az, el) c. el_sample p az el c) (zip (az_enc p) (el_enc p))
              (map (\<lambda>t. 0) (time p)))"
    then have i: "i < length (az_enc p)" "i < length (el_enc p)" "i < length (time p)" by simp_all
    then have "sin (el_enc p ! i) \<noteq> 0 \<and> cos (el_enc p ! i) \<noteq> 0" using assms(6) by (meson nth_mem)
    then show "map2 (\<lambda>(az, el) c. el_sample p az el c) (zip (az_enc p) (el_enc p))
              (map (\<lambda>t. 0) (time p)) ! i = map Some (el_enc p) ! i"
      using i by (simp add: el_sample_def eld_sample_def z)
  qed
  show ?thesis
    using assms(1,3,4) by (simp add: apply_pointing_model_def same_shape3 eltc az el)
qed

lemma str_split_ia_ie: "str_split ''ia ie'' = [''ia'', ''ie'']"
  by (simp add: str_split_def is_space_def)

text \<open>A scan of two samples at elevation \<open>pi / 6\<close> with the names \<open>ia\<close> and \<open>ie\<close> at zero.\<close>

theorem zero_params_identity_witness:
  "length (value_params p_ex) = length (str_split (allowed_params p_ex)) \<and>
   value_params p_ex = [0, 0] \<and> time p_ex \<noteq> [] \<and>
   sin (pi / 6 :: real) \<noteq> 0 \<and> cos (pi / 6 :: real) \<noteq> 0 \<and>
   apply_pointing_model p_ex = Inr ([Some 0, Some 1], [Some (pi / 6), Some (pi / 6)])"
proof -
  have h1: "length (value_params p_ex) = length (str_split (allowed_params p_ex))"
    by (simp add: p_ex_def str_split_ia_ie)
  have h2: "\<forall>v\<in>set (value_params p_ex). v = 0"
    by (simp add: p_ex_def)
  have h3: "length (el_enc p_ex) = length (az_enc p_ex)" "length (time p_ex) = length (az_enc p_ex)"
    by (simp_all add: p_ex_def)
  have h4: "time p_ex \<noteq> []"
    by (simp add: p_ex_def)
  have h5: "\<forall>e\<in>set (el_enc p_ex). sin e \<noteq> 0 \<and> cos e \<noteq> 0"
    by (simp add: p_ex_def sin_30 cos_30)
  have "apply_pointing_model p_ex = Inr ([Some 0, Some 1], [Some (pi / 6), Some (pi / 6)])"
    using zero_params_identity [OF h1 h2 h3 h4 h5] by (simp add: p_ex_def)
  with h1 h4 show ?thesis by (simp add: p_ex_def sin_30 cos_30)
qed

text \<open>
  Claim C5 as stated fails at a sample on the horizon: with no parameter supplied and
  the elevation 0, the term \<open>params['ref'] / tan(el)\<close> is \<open>0/0\<close>, and the corrected
  elevation is not the encoder's value but NaN.
\<close>

theorem zero_params_horizon_counterexample:
  "apply_pointing_model
     \<lparr> az_enc = [0], el_enc = [0], time = [0], value_params = [], allowed_params = [],
       lat = 0 \<rparr>
   = Inr ([Some 0], [None])"
  by (simp add: apply_pointing_model_def same_shape_def elt_contribution_def str_split_def
      az_sample_def azd_sample_def el_sample_def params_def Let_def)

text \<open>
  Claim C6 (time-linear term vanishes at scan start), amended.  The time-linear term is
  \<open>params['elt']\<close> times the time since the earliest timestamp of the scan,
  \<open>np.min(self.time)\<close>: it is zero at every sample whose timestamp is the earliest one,
  and so at the first sample when no later sample has an earlier timestamp.
\<close>

theorem elt_term_zero_at_earliest:
  assumes "i < length (time p)" and "\<forall>t\<in>set (time p). time p ! i \<le> t"
  shows "\<exists>c. elt_contribution p = Inr c \<and> length c = length (time p) \<and> c ! i = 0 \<and>
           (\<forall>j<length (time p). c ! j = params p ''elt'' * (time p ! j - time p ! i))"
proof -
  from assms(1) have ne: "time p \<noteq> []" by auto
  have "Min (set (time p)) = time p ! i"
    using assms by (intro Min_eqI) auto
  with ne have "np_min (time p) = Inr (time p ! i)"
    by (simp add: np_min_Min)
  then show ?thesis using assms(1) by (simp add: elt_contribution_def)
qed

text \<open>A scan with the timestamps 3 and 7 and \<open>elt = 2\<close>.\<close>

theorem elt_term_zero_at_earliest_witness:
  "\<exists>c. elt_contribution
          \<lparr> az_enc = [0, 0], el_enc = [1, 1], time = [3, 7], value_params = [2],
            allowed_params = ''elt'', lat = 0 \<rparr> = Inr c \<and> c ! 0 = 0"
proof -
  let ?p = "\<lparr> az_enc = [0, 0], el_enc = [1, 1], time = [3, 7], value_params = [2],
            allowed_params = ''elt'', lat = 0 \<rparr>"
  have h1: "0 < length (time ?p)" by simp
  have h2: "\<forall>t\<in>set (time ?p). time ?p ! 0 \<le> t" by simp
  from elt_term_zero_at_earliest [OF h1 h2] show ?thesis by blast
qed

text \<open>
  Claim C6 as stated fails on the timestamps 1 and 0 with \<open>elt = 1\<close>: the term is 1 at the
  first sample.
\<close>

theorem elt_term_first_sample_counterexample:
  "elt_contribution
     \<lparr> az_enc = [0, 0], el_enc = [1, 1], time = [1, 0], value_params = [1],
       allowed_params = ''elt'', lat = 0 \<rparr> = Inr [1, 0]"
  by (simp add: elt_contribution_def params_def str_split_def is_space_def known_params_def Let_def)

section \<open>The pixel indexer\<close>

text \<open>
  The binary search stays between its bounds; on a sorted array it returns the first
  position whose entry is not below the key, so a key of the array is found.
\<close>

declare bsearch.simps [simp del]

lemma bsearch_done: "\<not> lo < hi \<Longrightarrow> bsearch a key lo hi = lo"
  by (subst bsearch.simps) simp

lemma bsearch_right:
  "lo < hi \<Longrightarrow> a ! (lo + (hi - lo) div 2) < key \<Longrightarrow>
     bsearch a key lo hi = bsearch a key (lo + (hi - lo) div 2 + 1) hi"
  by (subst bsearch.simps) simp

lemma bsearch_left:
  "lo < hi \<Longrightarrow> \<not> a ! (lo + (hi - lo) div 2) < key \<Longrightarrow>
     bsearch a key lo hi = bsearch a key lo (lo + (hi - lo) div 2)"
  by (subst bsearch.simps) simp

lemma bsearch_bounds:
  "lo \<le> hi \<Longrightarrow> lo \<le> bsearch a key lo hi \<and> bsearch a key lo hi \<le> hi"
proof (induction a key lo hi rule: bsearch.induct)
  case (1 a key lo hi)
  show ?case
  proof (cases "lo < hi")
    case False
    with "1.prems" show ?thesis by (simp add: bsearch_done)
  next
    case True
    let ?mid = "lo + (hi - lo) div 2"
    have m: "lo \<le> ?mid" "?mid < hi" using True by auto
    show ?thesis
    proof (cases "a ! ?mid < key")
      case l: True
      from "1.IH"(1) [OF True l] m have
        "?mid + 1 \<le> bsearch a key (?mid + 1) hi \<and> bsearch a key (?mid + 1) hi \<le> hi"
        by simp
      with True l m show ?thesis by (simp add: bsearch_right)
    next
      case l: False
      from "1.IH"(2) [OF True l] m have
        "lo \<le> bsearch a key lo ?mid \<and> bsearch a key lo ?mid \<le> ?mid"
        by simp
      with True l m show ?thesis by (simp add: bsearch_left)
    qed
  qed
qed

lemma searchsorted_le: "searchsorted a key \<le> length a"
  using bsearch_bounds [of 0 "length a" a key] by (simp add: searchsorted_def)

lemma bsearch_sorted:
  assumes "sorted a" and "lo \<le> hi" and "hi \<le> length a"
    and "\<forall>i<lo. a ! i < key" and "\<forall>i. hi \<le> i \<and> i < length a \<longrightarrow> key \<le> a ! i"
  shows "(\<forall>i<bsearch a key lo hi. a ! i < key) \<and>
         (\<forall>i. bsearch a key lo hi \<le> i \<and> i < length a \<longrightarrow> key \<le> a ! i)"
  using assms
proof (induction a key lo hi rule: bsearch.induct)
  case (1 a key lo hi)
  show ?case
  proof (cases "lo < hi")
    case False
    with "1.prems" show ?thesis by (simp add: bsearch_done)
  next
    case True
    let ?mid = "lo + (hi - lo) div 2"
    have m: "lo \<le> ?mid" "?mid < hi" "?mid < length a" using True "1.prems"(3) by auto
    show ?thesis
    proof (cases "a ! ?mid < key")
      case l: True
      have "\<forall>i<?mid + 1. a ! i < key"
      proof (intro allI impI)
        fix i assume "i < ?mid + 1"
        then have "i \<le> ?mid" by simp
        with "1.prems"(1) m(3) have "a ! i \<le> a ! ?mid" by (simp add: sorted_iff_nth_mono)
        with l show "a ! i < key" by simp
      qed
      with "1.IH"(1) [OF True l "1.prems"(1)] m "1.prems"(3,5) True l show ?thesis
        by (simp add: bsearch_right)
    next
      case l: False
      have "\<forall>i. ?mid \<le> i \<and> i < length a \<longrightarrow> key \<le> a ! i"
      proof (intro allI impI)
        fix i assume "?mid \<le> i \<and> i < length a"
        with "1.prems"(1) have "a ! ?mid \<le> a ! i" by (simp add: sorted_iff_nth_mono)
        with l show "key \<le> a ! i" by simp
      qed
      with "1.IH"(2) [OF True l "1.prems"(1)] m "1.prems"(4) True l show ?thesis
        by (simp add: bsearch_left)
    qed
  qed
qed

lemma searchsorted_member:
  assumes "sorted a" and "key \<in> set a"
  shows "searchsorted a key < length a \<and> a ! searchsorted a key = key"
proof -
  let ?r = "searchsorted a key"
  from bsearch_sorted [OF assms(1), of 0 "length a" key]
  have lo: "\<forall>i<?r. a ! i < key" and hi: "\<forall>i. ?r \<le> i \<and> i < length a \<longrightarrow> key \<le> a ! i"
    by (simp_all add: searchsorted_def)
  from assms(2) obtain k where k: "k < length a" "a ! k = key"
    by (auto simp: in_set_conv_nth)
  with lo have rk: "?r \<le> k" by (meson less_irrefl not_le_imp_less)
  with k have r: "?r < length a" by simp
  from assms(1) rk k have "a ! ?r \<le> key" by (auto simp: sorted_iff_nth_mono)
  moreover from hi r have "key \<le> a ! ?r" by simp
  ultimately show ?thesis using r by simp
qed

text \<open>
  The healpix branch with outlier-cutting: it returns, and the local index of a sample is
  the position of its global identifier in \<open>obspix\<close>, or the sentinel.
\<close>

lemma bpm_healpix:
  assumes "length dec = length ra"
  shows "build_pointing_matrix E ra dec healpix (Some obs) xm ym ps n True =
           Inr (map2 (ang2pix E) ra dec,
                Some (map (\<lambda>g. if searchsorted obs g < length obs \<and> obs ! searchsorted obs g = g
                               then int (searchsorted obs g) else - 1)
                        (map2 (ang2pix E) ra dec)))"
  using assms unfolding build_pointing_matrix_def Let_def
  by (auto intro!: nth_equalityI)


lemma bpm_healpix_sample:
  assumes "build_pointing_matrix E ra dec healpix (Some obs) xm ym ps n True = Inr (ig, Some il)"
  shows "length ig = length ra" and "length il = length ra"
    and "\<forall>j<length ra. ig ! j = ang2pix E (ra ! j) (dec ! j)"
    and "\<forall>j<length ra. ig ! j \<notin> set obs \<longrightarrow> il ! j = - 1"
    and "\<forall>j<length ra. il ! j = - 1 \<or> (0 \<le> il ! j \<and> il ! j < int (length obs) \<and> obs ! nat (il ! j) = ig ! j)"
proof -
  from assms have len: "length dec = length ra"
    by (auto simp: build_pointing_matrix_def split: if_splits)
  note b = assms [unfolded bpm_healpix [OF len]]
  from b len show "length ig = length ra" "length il = length ra" by auto
  from b len show "\<forall>j<length ra. ig ! j = ang2pix E (ra ! j) (dec ! j)" by auto
  from b len show "\<forall>j<length ra. ig ! j \<notin> set obs \<longrightarrow> il ! j = - 1"
    by (auto simp: in_set_conv_nth)
  from b len show "\<forall>j<length ra. il ! j = - 1 \<or> (0 \<le> il ! j \<and> il ! j < int (length obs) \<and> obs ! nat (il ! j) = ig ! j)"
    by (auto split: if_splits)
qed

lemma bpm_healpix_sorted_member:
  assumes "build_pointing_matrix E ra dec healpix (Some obs) xm ym ps n True = Inr (ig, Some il)"
    and "sorted obs" and "j < length ra" and "ig ! j \<in> set obs"
  shows "0 \<le> il ! j \<and> il ! j < int (length obs) \<and> obs ! nat (il ! j) = ig ! j"
proof -
  from assms(1) have len: "length dec = length ra"
    by (auto simp: build_pointing_matrix_def split: if_splits)
  note b = assms(1) [unfolded bpm_healpix [OF len]]
  from searchsorted_member [OF assms(2,4)] b len assms(3) show ?thesis by auto
qed

text \<open>
  The flat branch: the local index of a sample from the truncated grid coordinates.
\<close>

lemma bpm_flat:
  assumes "length dec = length ra" and "ps \<noteq> 0"
  shows "build_pointing_matrix E ra dec flat ob xm ym ps n co =
           Inr (map2 (ang2pix E) ra dec,
                Some (map2 (\<lambda>a b.
                        let ix = np_int ((fst (LamCyl E a b) - (xm - ps / 2)) / ps);
                            iy = np_int ((snd (LamCyl E a b) - (ym - ps / 2)) / ps)
                        in if ix < 0 \<or> ix \<ge> n \<or> iy < 0 \<or> iy \<ge> n then - 1 else ix * n + iy)
                      ra dec))"
  using assms unfolding build_pointing_matrix_def Let_def
  by (auto intro!: nth_equalityI)

text \<open>
  Claim C2 (sentinel invariant) at a sample of the flat projection that lies outside the
  grid.  The grid has three pixels of side 1 on each axis and starts at \<open>xminmap = -1.5\<close>;
  the sample is projected to \<open>x = -2\<close>, half a pixel to the left of the grid.  The
  quotient \<open>(x - xminmap) / pixel_size\<close> is \<open>-0.5\<close>, which \<open>np.int_\<close> truncates to 0, the
  test \<open>ix < 0\<close> does not see the sample, and its local index is 1, not the sentinel.
  (The healpix branch does flag every sample whose pixel is not observed, the local
  indices have the length of the coordinates, and the kernel leaves the accumulator as
  it is on the sentinel: the lemmas around this theorem.)
\<close>

theorem flat_edge_sample_not_flagged:
  "\<not> in_grid_extent (- 1) (- 1) 1 3 (LamCyl E_ex (- 2) 0) \<and>
   build_pointing_matrix E_ex [- 2] [0] flat None (- 1) (- 1) 1 3 True = Inr ([0], Some [1])"
  by (simp add: in_grid_extent_def E_ex_def build_pointing_matrix_def np_int_def Let_def
      ceiling_def)

text \<open>
  A sample that is a whole pixel or more to the left of or below the grid, or anywhere to
  the right of or above it, is flagged.
\<close>

lemma flat_far_outside:
  assumes "build_pointing_matrix E ra dec flat ob xm ym ps n co = Inr (ig, Some il)"
    and "0 < ps" and "j < length ra"
    and "fst (LamCyl E (ra ! j) (dec ! j)) \<le> xm - ps / 2 - ps \<or>
         xm - ps / 2 + real_of_int n * ps \<le> fst (LamCyl E (ra ! j) (dec ! j)) \<or>
         snd (LamCyl E (ra ! j) (dec ! j)) \<le> ym - ps / 2 - ps \<or>
         ym - ps / 2 + real_of_int n * ps \<le> snd (LamCyl E (ra ! j) (dec ! j))"
  shows "il ! j = - 1"
proof -
  from assms(1) have len: "length dec = length ra"
    by (auto simp: build_pointing_matrix_def split: if_splits)
  have low: "np_int ((v - c) / ps) < 0" if "v \<le> c - ps" for v c
  proof -
    from that assms(2) have "(v - c) / ps \<le> - 1" by (simp add: field_simps)
    then show ?thesis by (auto simp: np_int_def)
  qed
  have high: "n \<le> np_int ((v - c) / ps)" if "c + real_of_int n * ps \<le> v" for v c
  proof -
    from that assms(2) have a: "real_of_int n \<le> (v - c) / ps" by (simp add: field_simps)
    show ?thesis
    proof (cases "0 \<le> (v - c) / ps")
      case True
      with a show ?thesis by (simp add: np_int_def le_floor_iff)
    next
      case False
      with a have "real_of_int n < 0" by linarith
      with a False show ?thesis by (simp add: np_int_def) linarith
    qed
  qed
  note b = assms(1) [unfolded bpm_flat [OF len less_imp_neq [OF assms(2), symmetric]]]
  from assms(4) low [of "fst (LamCyl E (ra ! j) (dec ! j))" "xm - ps / 2"]
    low [of "snd (LamCyl E (ra ! j) (dec ! j))" "ym - ps / 2"]
    high [of "xm - ps / 2" "fst (LamCyl E (ra ! j) (dec ! j))"]
    high [of "ym - ps / 2" "snd (LamCyl E (ra ! j) (dec ! j))"]
  have "np_int ((fst (LamCyl E (ra ! j) (dec ! j)) - (xm - ps / 2)) / ps) < 0 \<or>
        n \<le> np_int ((fst (LamCyl E (ra ! j) (dec ! j)) - (xm - ps / 2)) / ps) \<or>
        np_int ((snd (LamCyl E (ra ! j) (dec ! j)) - (ym - ps / 2)) / ps) < 0 \<or>
        n \<le> np_int ((snd (LamCyl E (ra ! j) (dec ! j)) - (ym - ps / 2)) / ps)"
    by blast
  with b len assms(3) show ?thesis by (auto simp: Let_def)
qed

text \<open>
  The example of the docstring: the global identifiers 2592 and 420 against the observed
  pixels 0, 1200 and 2592.
\<close>

lemma healpix_doc_example:
  "build_pointing_matrix (E_ex\<lparr>ang2pix := (\<lambda>ra dec. if dec < 0 then 2592 else 420)\<rparr>)
     [0, 0] [- pi / 4, pi / 4] healpix (Some [0, 1200, 2592]) 0 0 0 0 True
   = Inr ([2592, 420], Some [2, - 1])"
  by (simp add: bpm_healpix searchsorted_def bsearch.simps E_ex_def)

text \<open>
  The kernel leaves the accumulator as it is on a sentinel and on a masked sample.
\<close>

lemma kernel_step_sentinel:
  "sint (pm ! (i * nt + j)) = - 1 \<Longrightarrow> kernel_step pm pa ts dwt swt nt msk npix i j m = m"
  by (simp add: kernel_step_def)

lemma kernel_step_masked:
  "msk ! (i * nt + j) = 0 \<Longrightarrow> kernel_step pm pa ts dwt swt nt msk npix i j m = m"
  by (simp add: kernel_step_def)

lemma searchsorted_ex: "searchsorted [0] 0 = 0"
  by (simp add: searchsorted_def bsearch.simps)

section \<open>The projection engine\<close>

subsection \<open>What map2tod computes and writes\<close>


lemma store_row_Inr:
  assumes "store_row M row v = Inr M'"
  shows "row < length M" and "length M' = length M"
    and "\<forall>i<length M. i \<noteq> row \<longrightarrow> M' ! i = M ! i"
    and "length (M' ! row) = length (M ! row)"
    and "length v = length (M ! row) \<longrightarrow> M' ! row = v"
  using assms by (auto simp: store_row_def split: if_splits)









text \<open>
  What a channel computes does not depend on the contents of the two arrays, so the
  calls for a list of channels can be followed one after the other: every pair whose
  even channel is in the list has its row written, the other rows are as before.
\<close>

lemma of_static [simp]:
  "pa_of E (t\<lparr>point_matrix := X, pol_angs := Y\<rparr>) ch = pa_of E t ch"
  "ig_of E (t\<lparr>point_matrix := X, pol_angs := Y\<rparr>) ch = ig_of E t ch"
  "il_of E (t\<lparr>point_matrix := X, pol_angs := Y\<rparr>) ch = il_of E t ch"
  "polang_of E (t\<lparr>point_matrix := X, pol_angs := Y\<rparr>) ch = polang_of E t ch"
  "ts_of E (t\<lparr>point_matrix := X, pol_angs := Y\<rparr>) ch = ts_of E t ch"
  by (simp_all add: pa_of_def ig_of_def il_of_def polang_of_def ts_of_def)




lemma store_row_eq:
  assumes "store_row M row v = Inr M'"
  shows "row < length M \<and>
         M' = M[row := (if length v = length (M ! row) then v
                        else replicate (length (M ! row)) (hd v))]"
  using assms by (auto simp: store_row_def split: if_splits)

text \<open>
  Claim C7 (single-writer parity convention), amended.  A call of \<open>map2tod\<close> that returns
  changes nothing of the object but the pointing matrix and the polarization-angle array.
  For an even channel it stores the local pixel indices that it computed (as 32-bit
  values) into the row \<open>ch / 2\<close> of the pointing matrix; it stores the polarization angles
  that it computed into the row \<open>ch / 2\<close> of the polarization-angle array when the sky
  carries polarization, and leaves that array as it is when the sky does not.  For an
  odd channel it leaves both arrays as they are.
\<close>

theorem map2tod_single_writer:
  assumes "map2tod E t ch = Inr (ts, t')"
  shows "t' = t\<lparr>point_matrix := point_matrix t', pol_angs := pol_angs t'\<rparr> \<and>
         (\<exists>pa ig il.
            resolve_pixels E t ch = Inr (pa, ig, il) \<and>
            (ch mod 2 = 0 \<longrightarrow>
               store_row (point_matrix t) (ch div 2) (map of_int il) = Inr (point_matrix t') \<and>
               (do_pol (sky t) \<longrightarrow>
                  (\<exists>pol_ang. compute_simpolangle t ch pa False = Inr pol_ang \<and>
                     store_row (pol_angs t) (ch div 2) pol_ang = Inr (pol_angs t'))) \<and>
               (\<not> do_pol (sky t) \<longrightarrow> pol_angs t' = pol_angs t)) \<and>
            (ch mod 2 \<noteq> 0 \<longrightarrow> point_matrix t' = point_matrix t \<and> pol_angs t' = pol_angs t))"
proof -
  from assms obtain pa ig il where r: "resolve_pixels E t ch = Inr (pa, ig, il)"
    by (auto simp: map2tod_def split: sum.splits)
  from assms r obtain pm where pm:
    "(if ch mod 2 = 0 then store_row (point_matrix t) (ch div 2) (map of_int il)
      else Inr (point_matrix t)) = Inr pm"
    by (auto simp: map2tod_def split: sum.splits)
  show ?thesis
  proof (cases "do_pol (sky t)")
    case False
    with assms r pm have "t' = t\<lparr>point_matrix := pm\<rparr>"
      by (auto simp: map2tod_def split: sum.splits)
    with r pm False show ?thesis by (auto split: if_splits)
  next
    case True
    with assms r pm obtain pol_ang where pa: "compute_simpolangle t ch pa False = Inr pol_ang"
      by (auto simp: map2tod_def split: sum.splits)
    from assms r pm True pa obtain pas where pas:
      "(if ch mod 2 = 0 then store_row (pol_angs t) (ch div 2) pol_ang
        else Inr (pol_angs t)) = Inr pas"
      by (auto simp: map2tod_def split: sum.splits)
    from assms r pm True pa pas have "t' = t\<lparr>point_matrix := pm, pol_angs := pas\<rparr>"
      by (auto simp: map2tod_def split: sum.splits if_splits)
    with r pm True pa pas show ?thesis by (auto split: if_splits)
  qed
qed


lemma map2tod_dirty0: "map2tod E_ex tod_dirty 0 = Inr ([2], tod_ex)"
  by (simp add: map2tod_def resolve_pixels_def E_ex_def tod_ex_def tod_dirty_def
      build_pointing_matrix_def searchsorted_ex store_row_def compute_simpolangle_def d2r_def
      getitem_def Let_def)

text \<open>
  On the example with other contents in the two arrays, the even channel 0 replaces the
  row 0 of both by what it computed.
\<close>

theorem map2tod_single_writer_witness:
  "map2tod E_ex tod_dirty 0 = Inr ([2], tod_ex) \<and>
   point_matrix tod_dirty = [[7]] \<and> pol_angs tod_dirty = [[9]] \<and>
   point_matrix tod_ex = [[0]] \<and> pol_angs tod_ex = [[0]] \<and>
   (\<exists>pa ig il pol_ang.
      resolve_pixels E_ex tod_dirty 0 = Inr (pa, ig, il) \<and>
      store_row (point_matrix tod_dirty) 0 (map of_int il) = Inr (point_matrix tod_ex) \<and>
      compute_simpolangle tod_dirty 0 pa False = Inr pol_ang \<and>
      store_row (pol_angs tod_dirty) 0 pol_ang = Inr (pol_angs tod_ex))"
proof -
  have p: "do_pol (sky tod_dirty)" "(0::nat) mod 2 = 0" "(0::nat) div 2 = 0"
    by (simp_all add: tod_dirty_def tod_ex_def)
  from map2tod_single_writer [OF map2tod_dirty0] p have
    "\<exists>pa ig il pol_ang.
      resolve_pixels E_ex tod_dirty 0 = Inr (pa, ig, il) \<and>
      store_row (point_matrix tod_dirty) 0 (map of_int il) = Inr (point_matrix tod_ex) \<and>
      compute_simpolangle tod_dirty 0 pa False = Inr pol_ang \<and>
      store_row (pol_angs tod_dirty) 0 pol_ang = Inr (pol_angs tod_ex)"
    by auto
  moreover have "point_matrix tod_dirty = [[7]]" "pol_angs tod_dirty = [[9]]"
    "point_matrix tod_ex = [[0]]" "pol_angs tod_ex = [[0]]"
    by (simp_all add: tod_dirty_def tod_ex_def)
  ultimately show ?thesis using map2tod_dirty0 by blast
qed

text \<open>
  Claim C7 as stated fails on a sky without polarization: the even channel 0 returns,
  the polarization angles of the channel are \<open>[0]\<close>, and the row 0 of the
  polarization-angle array is still \<open>[9]\<close>.
\<close>

theorem map2tod_unpolarized_counterexample:
  "map2tod E_ex tod_nopol 0 = Inr ([1], tod_nopol) \<and>
   resolve_pixels E_ex tod_nopol 0 = Inr ([0], [0], [0]) \<and>
   compute_simpolangle tod_nopol 0 [0] False = Inr [0] \<and>
   pol_angs tod_nopol = [[9]]"
  by (simp add: map2tod_def resolve_pixels_def E_ex_def tod_ex_def tod_nopol_def
      build_pointing_matrix_def searchsorted_ex store_row_def compute_simpolangle_def d2r_def
      getitem_def Let_def)

section \<open>The round trip\<close>



























text \<open>
  The example in the flat projection, step by step.
\<close>

lemma isqrt_4: "isqrt 4 = 2"
  by code_simp

lemma resolve_flat:
  "resolve_pixels E_flat tod_flat ch = (if ch < 2 then Inr ([0, 0], [0, 1], [3, 3]) else Inl IndexError)"
  by (simp add: resolve_pixels_def E_flat_def tod_flat_def build_pointing_matrix_def isqrt_4
      np_int_def Let_def)

lemma map2tod_flat0:
  "map2tod E_flat tod_flat 0 = Inr ([1, 3], tod_flat\<lparr>point_matrix := [[3, 3]]\<rparr>)"
  by (simp add: map2tod_def resolve_flat store_row_def getitem_def) (simp add: tod_flat_def getitem_def)

lemma map2tod_flat1:
  "map2tod E_flat (tod_flat\<lparr>point_matrix := [[3, 3]]\<rparr>) (Suc 0)
     = Inr ([1, 3], tod_flat\<lparr>point_matrix := [[3, 3]]\<rparr>)"
  by (simp add: map2tod_def resolve_pixels_def E_flat_def tod_flat_def build_pointing_matrix_def isqrt_4
      np_int_def Let_def getitem_def)

lemma tod2map_flat:
  "tod2map (tod_flat\<lparr>point_matrix := [[3, 3]]\<rparr>) [[1, 3], [1, 3]]
       (initialise_sky_maps flat None 4) =
     Inr ((initialise_sky_maps flat None 4)
            \<lparr> d := [0, 0, 0, 4], w := [0, 0, 0, 2], dc := [0, 0, 0, 0], ds := [0, 0, 0, 0],
              cc := [0, 0, 0, 2], cs := [0, 0, 0, 0], ss := [0, 0, 0, 0],
              nhit := [0, 0, 0, 2] \<rparr>)"
  by (simp add: tod2map_def same_shape_def tod_flat_def tod2map_alldet_f_def kernel_step_def
      accumulate_sample_def initialise_sky_maps_def Let_def upt_rec numeral_eq_Suc)

lemma get_I_flat:
  "get_I ((initialise_sky_maps flat None 4)
            \<lparr> d := [0, 0, 0, 4], w := [0, 0, 0, 2], dc := [0, 0, 0, 0], ds := [0, 0, 0, 0],
              cc := [0, 0, 0, 2], cs := [0, 0, 0, 0], ss := [0, 0, 0, 0],
              nhit := [0, 0, 0, 2] \<rparr>) = Inr [0, 0, 0, 2]"
  by (simp add: get_I_def initialise_sky_maps_def upt_rec)

lemma get_IQU_flat:
  "get_IQU ((initialise_sky_maps flat None 4)
            \<lparr> d := [0, 0, 0, 4], w := [0, 0, 0, 2], dc := [0, 0, 0, 0], ds := [0, 0, 0, 0],
              cc := [0, 0, 0, 2], cs := [0, 0, 0, 0], ss := [0, 0, 0, 0],
              nhit := [0, 0, 0, 2] \<rparr>) =
     Inr (([0, 0, 0, 2], [0, 0, 0, 0], [0, 0, 0, 0]),
          (initialise_sky_maps flat None 4)
            \<lparr> d := [0, 0, 0, 4], w := [0, 0, 0, 2], dc := [0, 0, 0, 0], ds := [0, 0, 0, 0],
              cc := [0, 0, 0, 2], cs := [0, 0, 0, 0], ss := [0, 0, 0, 0],
              nhit := [0, 0, 0, 2], idet := Some [0, 0, 0, 0] \<rparr>)"
  by (simp add: get_IQU_def get_I_flat)
     (simp add: get_QU_def same_shape_def initialise_sky_maps_def thresh_def Let_def)

text \<open>
  In the flat projection the accumulator is indexed by the pixels of the grid, the input
  map by the pixels of the sphere.  Here two samples fall into the grid pixel 3 and read
  the input intensities 1 and 3: the solved intensity of the grid pixel is 2, their mean,
  a value that the input map does not have.
\<close>

lemma round_trip_flat_averages:
  "map_tod_map E_flat tod_flat =
     Inr (([0, 0, 0, 2], [0, 0, 0, 0], [0, 0, 0, 0]),
          (initialise_sky_maps flat None 4)
            \<lparr> d := [0, 0, 0, 4], w := [0, 0, 0, 2], dc := [0, 0, 0, 0], ds := [0, 0, 0, 0],
              cc := [0, 0, 0, 2], cs := [0, 0, 0, 0], ss := [0, 0, 0, 0],
              nhit := [0, 0, 0, 2], idet := Some [0, 0, 0, 0] \<rparr>)"
proof -
  have a: "map2tod_all E_flat tod_flat [0 ..< 2 * 1]
             = Inr ([[1, 3], [1, 3]], tod_flat\<lparr>point_matrix := [[3, 3]]\<rparr>)"
    by (simp add: upt_rec map2tod_flat0 map2tod_flat1)
  have n: "npair tod_flat = 1" "tod_projection (tod_flat\<lparr>point_matrix := [[3, 3]]\<rparr>) = flat"
    "tod_npixsky (tod_flat\<lparr>point_matrix := [[3, 3]]\<rparr>) = 4"
    by (simp_all add: tod_flat_def)
  have nm: "new_OutputSkyMap flat None (Some 4) = Inr (initialise_sky_maps flat None 4)"
    by (simp add: new_OutputSkyMap_def)
  show ?thesis
    by (simp only: map_tod_map_def n a nm tod2map_flat get_IQU_flat sum.case prod.case
        projection.case)
qed

end
